theory Spec2Isabelle
  imports Main
begin

section \<open>Values, failures and checked arithmetic\<close>

text \<open>
  The three contracts of \<^verbatim>\<open>src/contracts/RebalancingEngine.sol\<close> (RebalancingEngine,
  YieldOracle and PortfolioManager) are embedded as state-passing functions. A call that
  reverts is the value \<open>Inl e\<close>: the caller keeps the state it had, as the EVM rolls the
  storage and the event log back. A \<^verbatim>\<open>uint256\<close> is a natural number that every
  arithmetic operation keeps below \<open>2 ^ 256\<close> or fails; an address is a natural number;
  \<^verbatim>\<open>keccak256(bytes(a)) == keccak256(bytes(b))\<close> is equality of the two strings.

  The \<^verbatim>\<open>nonReentrant\<close> guards are left out: a call of the model runs to its end
  before the next one starts, so the guard is always open when a call begins. The ether
  PortfolioManager holds is not part of the state: whether the transfer of a withdrawal
  succeeds is an input of \<^verbatim>\<open>withdrawFunds\<close>.

  Two kinds of failure are kept apart, because \<^verbatim>\<open>catch Error(string memory reason)\<close>
  catches only the first: \<open>Revert s\<close> is a failed \<^verbatim>\<open>require(c, s)\<close>, \<open>Panic\<close> is
  a failed checked operation of Solidity 0.8 (overflow, underflow, division by zero).
\<close>

type_synonym address = nat

datatype error = Revert string | Panic

definition MAX_UINT256 :: nat where
  "MAX_UINT256 = 2 ^ 256 - 1"

fun bind :: "error + 'a \<Rightarrow> ('a \<Rightarrow> error + 'b) \<Rightarrow> error + 'b" where
  "bind (Inl e) f = Inl e"
| "bind (Inr v) f = f v"

definition require :: "bool \<Rightarrow> string \<Rightarrow> error + unit" where
  "require c msg = (if c then Inr () else Inl (Revert msg))"

text \<open>
  The checked operators of Solidity 0.8 (\<^verbatim>\<open>a + b\<close>, \<^verbatim>\<open>a - b\<close>, \<^verbatim>\<open>a * b\<close>,
  \<^verbatim>\<open>a / b\<close>). PortfolioManager calls them through \<^verbatim>\<open>SafeMath\<close> of
  \<^verbatim>\<open>@openzeppelin/contracts\<close> 4.9 (the version \<^verbatim>\<open>src/docs/deployment_config.js\<close>
  pins), whose \<^verbatim>\<open>add\<close>, \<^verbatim>\<open>sub\<close>, \<^verbatim>\<open>mul\<close> and \<^verbatim>\<open>div\<close> are these
  operators and nothing more.
\<close>

definition checked_add :: "nat \<Rightarrow> nat \<Rightarrow> error + nat" where
  "checked_add a b = (if a + b \<le> MAX_UINT256 then Inr (a + b) else Inl Panic)"

definition checked_sub :: "nat \<Rightarrow> nat \<Rightarrow> error + nat" where
  "checked_sub a b = (if b \<le> a then Inr (a - b) else Inl Panic)"

definition checked_mul :: "nat \<Rightarrow> nat \<Rightarrow> error + nat" where
  "checked_mul a b = (if a * b \<le> MAX_UINT256 then Inr (a * b) else Inl Panic)"

definition checked_div :: "nat \<Rightarrow> nat \<Rightarrow> error + nat" where
  "checked_div a b = (if b = 0 then Inl Panic else Inr (a div b))"

section \<open>PortfolioManager\<close>

datatype RiskProfile = CONSERVATIVE | BALANCED | AGGRESSIVE

text \<open>The conversions \<^verbatim>\<open>RiskProfile(n)\<close> and \<^verbatim>\<open>uint8(profile)\<close> of the enum.\<close>

fun RiskProfile_of_uint8 :: "nat \<Rightarrow> error + RiskProfile" where
  "RiskProfile_of_uint8 n =
     (if n = 0 then Inr CONSERVATIVE
      else if n = 1 then Inr BALANCED
      else if n = 2 then Inr AGGRESSIVE
      else Inl Panic)"

fun uint8_of_RiskProfile :: "RiskProfile \<Rightarrow> nat" where
  "uint8_of_RiskProfile CONSERVATIVE = 0"
| "uint8_of_RiskProfile BALANCED = 1"
| "uint8_of_RiskProfile AGGRESSIVE = 2"

record Portfolio =
  totalValue :: nat
  currentYield :: nat
  currentProtocol :: string
  riskProfile :: RiskProfile
  autoRebalanceEnabled :: bool
  lastRebalance :: nat
  totalProfit :: nat

datatype pm_event =
    PortfolioCreated address nat RiskProfile
  | FundsDeposited address nat
  | FundsWithdrawn address nat
  | PortfolioRebalanced address string string nat
  | RiskProfileUpdated address RiskProfile RiskProfile
  | AutoRebalanceToggled address bool

record PortfolioManager =
  portfolios :: "address \<Rightarrow> Portfolio"
  authorizedRebalancers :: "address \<Rightarrow> bool"
  pm_owner :: address
  pm_paused :: bool
  pm_events :: "pm_event list"

text \<open>The value a \<^verbatim>\<open>mapping\<close> holds at a key that was never written.\<close>

definition empty_Portfolio :: Portfolio where
  "empty_Portfolio =
     \<lparr>totalValue = 0, currentYield = 0, currentProtocol = [], riskProfile = CONSERVATIVE,
      autoRebalanceEnabled = False, lastRebalance = 0, totalProfit = 0\<rparr>"

text \<open>The state after deployment by \<open>deployer\<close>.\<close>

definition PortfolioManager_init :: "address \<Rightarrow> PortfolioManager" where
  "PortfolioManager_init deployer =
     \<lparr>portfolios = (\<lambda>_. empty_Portfolio), authorizedRebalancers = (\<lambda>_. False),
      pm_owner = deployer, pm_paused = False, pm_events = []\<rparr>"

definition MIN_DEPOSIT :: nat where
  "MIN_DEPOSIT = 10 ^ 16"

definition MIN_YIELD_IMPROVEMENT :: nat where
  "MIN_YIELD_IMPROVEMENT = 50"

definition MAX_GAS_THRESHOLD :: nat where
  "MAX_GAS_THRESHOLD = 2 * 10 ^ 16"

text \<open>
  The functions take what Solidity passes implicitly: \<open>sender\<close> is \<^verbatim>\<open>msg.sender\<close>,
  \<open>val\<close> is \<^verbatim>\<open>msg.value\<close>, \<open>now\<close> is \<^verbatim>\<open>block.timestamp\<close>.
\<close>

definition createPortfolio ::
  "PortfolioManager \<Rightarrow> address \<Rightarrow> nat \<Rightarrow> nat \<Rightarrow> nat \<Rightarrow> error + PortfolioManager" where
  "createPortfolio pm sender val now rp =
     bind (require (\<not> pm_paused pm) ''Pausable: paused'') (\<lambda>_.
     bind (require (val \<ge> MIN_DEPOSIT) ''Minimum deposit required'') (\<lambda>_.
     bind (require (rp \<le> 2) ''Invalid risk profile'') (\<lambda>_.
     bind (require (totalValue (portfolios pm sender) = 0) ''Portfolio already exists'') (\<lambda>_.
     bind (RiskProfile_of_uint8 rp) (\<lambda>profile.
       Inr (pm\<lparr>portfolios := (portfolios pm)(sender :=
               \<lparr>totalValue = val, currentYield = 320, currentProtocol = ''Aave'',
                riskProfile = profile, autoRebalanceEnabled = True,
                lastRebalance = now, totalProfit = 0\<rparr>),
             pm_events := pm_events pm @ [PortfolioCreated sender val profile]\<rparr>))))))"

definition depositFunds ::
  "PortfolioManager \<Rightarrow> address \<Rightarrow> nat \<Rightarrow> error + PortfolioManager" where
  "depositFunds pm sender val =
     bind (require (\<not> pm_paused pm) ''Pausable: paused'') (\<lambda>_.
     bind (require (totalValue (portfolios pm sender) > 0) ''Portfolio does not exist'') (\<lambda>_.
     bind (require (val > 0) ''Amount must be greater than 0'') (\<lambda>_.
     bind (checked_add (totalValue (portfolios pm sender)) val) (\<lambda>v.
       Inr (pm\<lparr>portfolios := (portfolios pm)(sender :=
               (portfolios pm sender)\<lparr>totalValue := v\<rparr>),
             pm_events := pm_events pm @ [FundsDeposited sender val]\<rparr>)))))"

text \<open>
  \<open>transfer_ok\<close> is what \<^verbatim>\<open>msg.sender.call{value: amount}("")\<close> returns: the recipient
  decides it, so it is an input.
\<close>

definition withdrawFunds ::
  "PortfolioManager \<Rightarrow> address \<Rightarrow> nat \<Rightarrow> bool \<Rightarrow> error + PortfolioManager" where
  "withdrawFunds pm sender amount transfer_ok =
     bind (require (\<not> pm_paused pm) ''Pausable: paused'') (\<lambda>_.
     bind (require (totalValue (portfolios pm sender) \<ge> amount) ''Insufficient balance'') (\<lambda>_.
     bind (require (amount > 0) ''Amount must be greater than 0'') (\<lambda>_.
     bind (checked_sub (totalValue (portfolios pm sender)) amount) (\<lambda>v.
     bind (require transfer_ok ''Transfer failed'') (\<lambda>_.
       Inr (pm\<lparr>portfolios := (portfolios pm)(sender :=
               (portfolios pm sender)\<lparr>totalValue := v\<rparr>),
             pm_events := pm_events pm @ [FundsWithdrawn sender amount]\<rparr>))))))"

definition updateRiskProfile ::
  "PortfolioManager \<Rightarrow> address \<Rightarrow> nat \<Rightarrow> error + PortfolioManager" where
  "updateRiskProfile pm sender newProfile =
     bind (require (\<not> pm_paused pm) ''Pausable: paused'') (\<lambda>_.
     bind (require (newProfile \<le> 2) ''Invalid risk profile'') (\<lambda>_.
     bind (require (totalValue (portfolios pm sender) > 0) ''Portfolio does not exist'') (\<lambda>_.
     bind (RiskProfile_of_uint8 newProfile) (\<lambda>profile.
       Inr (pm\<lparr>portfolios := (portfolios pm)(sender :=
               (portfolios pm sender)\<lparr>riskProfile := profile\<rparr>),
             pm_events := pm_events pm @
               [RiskProfileUpdated sender (riskProfile (portfolios pm sender)) profile]\<rparr>)))))"

definition toggleAutoRebalance ::
  "PortfolioManager \<Rightarrow> address \<Rightarrow> error + PortfolioManager" where
  "toggleAutoRebalance pm sender =
     bind (require (\<not> pm_paused pm) ''Pausable: paused'') (\<lambda>_.
     bind (require (totalValue (portfolios pm sender) > 0) ''Portfolio does not exist'') (\<lambda>_.
       Inr (pm\<lparr>portfolios := (portfolios pm)(sender :=
               (portfolios pm sender)\<lparr>autoRebalanceEnabled :=
                  \<not> autoRebalanceEnabled (portfolios pm sender)\<rparr>),
             pm_events := pm_events pm @
               [AutoRebalanceToggled sender (\<not> autoRebalanceEnabled (portfolios pm sender))]\<rparr>)))"

definition checkRebalanceProfitability ::
  "PortfolioManager \<Rightarrow> address \<Rightarrow> nat \<Rightarrow> nat \<Rightarrow> error + bool" where
  "checkRebalanceProfitability pm user newYield gasCost =
     (let portfolio = portfolios pm user in
      bind (checked_add (currentYield portfolio) MIN_YIELD_IMPROVEMENT) (\<lambda>threshold.
        if newYield \<le> threshold then Inr False
        else
          bind (checked_sub newYield (currentYield portfolio)) (\<lambda>yieldImprovement.
          bind (checked_mul (totalValue portfolio) yieldImprovement) (\<lambda>product.
          bind (checked_div product 10000) (\<lambda>annualProfit.
          bind (checked_mul gasCost 115) (\<lambda>scaled.
          bind (checked_div scaled 100) (\<lambda>requiredProfit.
            Inr (annualProfit \<ge> requiredProfit))))))))"

text \<open>
  PortfolioManager.executeRebalance. The three field writes come first, as in the source,
  so that the \<^verbatim>\<open>portfolios[user].currentYield\<close> read by the profit computation is the
  value just written.
\<close>

definition PortfolioManager_executeRebalance ::
  "PortfolioManager \<Rightarrow> address \<Rightarrow> nat \<Rightarrow> address \<Rightarrow> string \<Rightarrow> string \<Rightarrow> nat \<Rightarrow> nat
     \<Rightarrow> error + PortfolioManager" where
  "PortfolioManager_executeRebalance pm sender now user fromProtocol toProtocol expectedYield gasCost =
     bind (require (authorizedRebalancers pm sender) ''Not authorized rebalancer'') (\<lambda>_.
     bind (require (\<not> pm_paused pm) ''Pausable: paused'') (\<lambda>_.
     bind (require (totalValue (portfolios pm user) > 0) ''Portfolio does not exist'') (\<lambda>_.
     bind (require (autoRebalanceEnabled (portfolios pm user)) ''Auto-rebalance disabled'') (\<lambda>_.
     bind (require (gasCost \<le> MAX_GAS_THRESHOLD) ''Gas cost too high'') (\<lambda>_.
     bind (checkRebalanceProfitability pm user expectedYield gasCost) (\<lambda>profitable.
     bind (require profitable ''Rebalancing not profitable'') (\<lambda>_.
       let p1 = (portfolios pm user)\<lparr>currentProtocol := toProtocol,
                   currentYield := expectedYield, lastRebalance := now\<rparr> in
       bind (checked_sub expectedYield (currentYield p1)) (\<lambda>yieldDifference.
       bind (checked_mul (totalValue p1) yieldDifference) (\<lambda>product.
       bind (checked_div product 10000) (\<lambda>annualProfit.
       bind (checked_sub annualProfit gasCost) (\<lambda>netProfit.
       bind (checked_add (totalProfit p1) netProfit) (\<lambda>profit.
         Inr (pm\<lparr>portfolios := (portfolios pm)(user := p1\<lparr>totalProfit := profit\<rparr>),
               pm_events := pm_events pm @
                 [PortfolioRebalanced user fromProtocol toProtocol expectedYield]\<rparr>)))))))))))))"

definition getPortfolio ::
  "PortfolioManager \<Rightarrow> address
     \<Rightarrow> nat \<times> nat \<times> string \<times> RiskProfile \<times> bool \<times> nat \<times> nat" where
  "getPortfolio pm user =
     (let portfolio = portfolios pm user in
      (totalValue portfolio, currentYield portfolio, currentProtocol portfolio,
       riskProfile portfolio, autoRebalanceEnabled portfolio, lastRebalance portfolio,
       totalProfit portfolio))"

definition authorizeRebalancer ::
  "PortfolioManager \<Rightarrow> address \<Rightarrow> address \<Rightarrow> bool \<Rightarrow> error + PortfolioManager" where
  "authorizeRebalancer pm sender aiEngine authorized =
     bind (require (sender = pm_owner pm) ''Ownable: caller is not the owner'') (\<lambda>_.
       Inr (pm\<lparr>authorizedRebalancers := (authorizedRebalancers pm)(aiEngine := authorized)\<rparr>))"

definition pm_pause :: "PortfolioManager \<Rightarrow> address \<Rightarrow> error + PortfolioManager" where
  "pm_pause pm sender =
     bind (require (sender = pm_owner pm) ''Ownable: caller is not the owner'') (\<lambda>_.
     bind (require (\<not> pm_paused pm) ''Pausable: paused'') (\<lambda>_.
       Inr (pm\<lparr>pm_paused := True\<rparr>)))"

definition pm_unpause :: "PortfolioManager \<Rightarrow> address \<Rightarrow> error + PortfolioManager" where
  "pm_unpause pm sender =
     bind (require (sender = pm_owner pm) ''Ownable: caller is not the owner'') (\<lambda>_.
     bind (require (pm_paused pm) ''Pausable: not paused'') (\<lambda>_.
       Inr (pm\<lparr>pm_paused := False\<rparr>)))"

section \<open>YieldOracle\<close>

record YieldData =
  protocol :: string
  apy :: nat
  tvl :: nat
  riskScore :: nat
  timestamp :: nat
  active :: bool

record HistoricalYield =
  hist_apy :: nat
  hist_timestamp :: nat

datatype yo_event =
    YieldUpdated string nat nat nat nat
  | ProtocolAdded string nat
  | ProtocolDeactivated string string
  | UpdaterAuthorized address bool

record YieldOracle =
  protocolYields :: "string \<Rightarrow> YieldData"
  yieldHistory :: "string \<Rightarrow> HistoricalYield list"
  authorizedUpdaters :: "address \<Rightarrow> bool"
  supportedProtocols :: "string list"
  yo_owner :: address
  yo_paused :: bool
  yo_events :: "yo_event list"

definition empty_YieldData :: YieldData where
  "empty_YieldData =
     \<lparr>protocol = [], apy = 0, tvl = 0, riskScore = 0, timestamp = 0, active = False\<rparr>"

definition MAX_STALENESS :: nat where
  "MAX_STALENESS = 3600"

definition MIN_TVL_THRESHOLD :: nat where
  "MIN_TVL_THRESHOLD = 1000000 * 10 ^ 18"

text \<open>\<^verbatim>\<open>_addProtocol\<close> and \<^verbatim>\<open>_isStaleData\<close>: an Isabelle name cannot start with an underscore.\<close>

definition addProtocol_internal ::
  "YieldOracle \<Rightarrow> nat \<Rightarrow> string \<Rightarrow> nat \<Rightarrow> error + YieldOracle" where
  "addProtocol_internal yo now name score =
     bind (require (length name > 0) ''Empty protocol name'') (\<lambda>_.
     bind (require (score \<ge> 1 \<and> score \<le> 10) ''Invalid risk score'') (\<lambda>_.
     bind (require (\<not> active (protocolYields yo name)) ''Protocol already exists'') (\<lambda>_.
       Inr (yo\<lparr>protocolYields := (protocolYields yo)(name :=
               \<lparr>protocol = name, apy = 0, tvl = 0, riskScore = score,
                timestamp = now, active = True\<rparr>),
             supportedProtocols := supportedProtocols yo @ [name],
             yo_events := yo_events yo @ [ProtocolAdded name score]\<rparr>))))"

definition isStaleData :: "nat \<Rightarrow> nat \<Rightarrow> error + bool" where
  "isStaleData now ts = bind (checked_sub now ts) (\<lambda>age. Inr (age > MAX_STALENESS))"

text \<open>The constructor, run by \<open>deployer\<close> at time \<open>now\<close>.\<close>

definition YieldOracle_init :: "address \<Rightarrow> nat \<Rightarrow> error + YieldOracle" where
  "YieldOracle_init deployer now =
     bind (addProtocol_internal
             \<lparr>protocolYields = (\<lambda>_. empty_YieldData), yieldHistory = (\<lambda>_. []),
              authorizedUpdaters = (\<lambda>_. False), supportedProtocols = [],
              yo_owner = deployer, yo_paused = False, yo_events = []\<rparr>
             now ''Aave'' 2) (\<lambda>yo.
     bind (addProtocol_internal yo now ''Compound'' 2) (\<lambda>yo.
     bind (addProtocol_internal yo now ''Curve'' 3) (\<lambda>yo.
     bind (addProtocol_internal yo now ''Uniswap'' 4) (\<lambda>yo.
     bind (addProtocol_internal yo now ''Yearn'' 3) (\<lambda>yo.
     bind (addProtocol_internal yo now ''Convex'' 4) (\<lambda>yo.
     bind (addProtocol_internal yo now ''Lido'' 2) (\<lambda>yo.
       addProtocol_internal yo now ''Rocket Pool'' 3)))))))"

definition updateYield ::
  "YieldOracle \<Rightarrow> address \<Rightarrow> nat \<Rightarrow> string \<Rightarrow> nat \<Rightarrow> nat \<Rightarrow> nat \<Rightarrow> error + YieldOracle" where
  "updateYield yo sender now name new_apy new_tvl new_score =
     bind (require (authorizedUpdaters yo sender \<or> sender = yo_owner yo) ''Not authorized'') (\<lambda>_.
     bind (require (active (protocolYields yo name)) ''Protocol not active'') (\<lambda>_.
     bind (require (\<not> yo_paused yo) ''Pausable: paused'') (\<lambda>_.
     bind (require (new_score \<ge> 1 \<and> new_score \<le> 10) ''Invalid risk score'') (\<lambda>_.
     bind (require (new_apy \<le> 50000) ''APY too high (>500%)'') (\<lambda>_.
     bind (require (new_tvl \<ge> MIN_TVL_THRESHOLD) ''TVL below minimum'') (\<lambda>_.
       let yieldData = protocolYields yo name in
       Inr (yo\<lparr>yieldHistory := (yieldHistory yo)(name := yieldHistory yo name @
               [\<lparr>hist_apy = apy yieldData, hist_timestamp = timestamp yieldData\<rparr>]),
             protocolYields := (protocolYields yo)(name :=
               yieldData\<lparr>apy := new_apy, tvl := new_tvl, riskScore := new_score,
                          timestamp := now\<rparr>),
             yo_events := yo_events yo @
               [YieldUpdated name new_apy new_tvl new_score now]\<rparr>)))))))"

text \<open>
  The loop of \<^verbatim>\<open>getBestYieldForRisk\<close> over \<^verbatim>\<open>supportedProtocols\<close>, with its three
  locals \<^verbatim>\<open>(highestYield, topProtocol, topRiskScore)\<close> as the accumulator. The
  conjunction of the source short-circuits, so the staleness test (the only conjunct
  that can fail) runs last and only when the others hold.
\<close>

fun getBestYieldForRisk_loop ::
  "YieldOracle \<Rightarrow> nat \<Rightarrow> nat \<Rightarrow> nat \<Rightarrow> string list \<Rightarrow> nat \<times> string \<times> nat
     \<Rightarrow> error + (nat \<times> string \<times> nat)" where
  "getBestYieldForRisk_loop yo now maxRisk minTvl [] acc = Inr acc"
| "getBestYieldForRisk_loop yo now maxRisk minTvl (name # rest) (highestYield, topProtocol, topRiskScore) =
     (let d = protocolYields yo name in
      if active d \<and> riskScore d \<le> maxRisk \<and> tvl d \<ge> minTvl \<and> apy d > highestYield
      then bind (isStaleData now (timestamp d)) (\<lambda>stale.
             if \<not> stale
             then getBestYieldForRisk_loop yo now maxRisk minTvl rest (apy d, name, riskScore d)
             else getBestYieldForRisk_loop yo now maxRisk minTvl rest
                    (highestYield, topProtocol, topRiskScore))
      else getBestYieldForRisk_loop yo now maxRisk minTvl rest
             (highestYield, topProtocol, topRiskScore))"

text \<open>The result is \<^verbatim>\<open>(bestProtocol, bestYield, riskScore)\<close>; "none" is \<open>([], 0, 0)\<close>.\<close>

definition getBestYieldForRisk ::
  "YieldOracle \<Rightarrow> nat \<Rightarrow> nat \<Rightarrow> nat \<Rightarrow> error + (string \<times> nat \<times> nat)" where
  "getBestYieldForRisk yo now maxRisk minTvl =
     bind (require (maxRisk \<ge> 1 \<and> maxRisk \<le> 10) ''Invalid risk profile'') (\<lambda>_.
     bind (getBestYieldForRisk_loop yo now maxRisk minTvl (supportedProtocols yo) (0, [], 0))
       (\<lambda>(highestYield, topProtocol, topRiskScore).
          Inr (topProtocol, highestYield, topRiskScore)))"

definition addProtocol ::
  "YieldOracle \<Rightarrow> address \<Rightarrow> nat \<Rightarrow> string \<Rightarrow> nat \<Rightarrow> error + YieldOracle" where
  "addProtocol yo sender now name score =
     bind (require (sender = yo_owner yo) ''Ownable: caller is not the owner'') (\<lambda>_.
       addProtocol_internal yo now name score)"

definition deactivateProtocol ::
  "YieldOracle \<Rightarrow> address \<Rightarrow> string \<Rightarrow> string \<Rightarrow> error + YieldOracle" where
  "deactivateProtocol yo sender name reason =
     bind (require (sender = yo_owner yo) ''Ownable: caller is not the owner'') (\<lambda>_.
     bind (require (active (protocolYields yo name)) ''Protocol already inactive'') (\<lambda>_.
       Inr (yo\<lparr>protocolYields := (protocolYields yo)(name :=
               (protocolYields yo name)\<lparr>active := False\<rparr>),
             yo_events := yo_events yo @ [ProtocolDeactivated name reason]\<rparr>)))"

definition authorizeUpdater ::
  "YieldOracle \<Rightarrow> address \<Rightarrow> address \<Rightarrow> bool \<Rightarrow> error + YieldOracle" where
  "authorizeUpdater yo sender updater authorized =
     bind (require (sender = yo_owner yo) ''Ownable: caller is not the owner'') (\<lambda>_.
       Inr (yo\<lparr>authorizedUpdaters := (authorizedUpdaters yo)(updater := authorized),
             yo_events := yo_events yo @ [UpdaterAuthorized updater authorized]\<rparr>))"

text \<open>
  \<^verbatim>\<open>getYieldHistory\<close>: the last \<open>limit\<close> entries of a venue's history,
  the most recent first, as the two arrays \<^verbatim>\<open>(apys, timestamps)\<close>.
\<close>

definition getYieldHistory :: "YieldOracle \<Rightarrow> string \<Rightarrow> nat \<Rightarrow> nat list \<times> nat list" where
  "getYieldHistory yo name limit =
     (let history = yieldHistory yo name;
          len = (if length history > limit then limit else length history)
      in (map (\<lambda>i. hist_apy (history ! (length history - 1 - i))) [0..<len],
          map (\<lambda>i. hist_timestamp (history ! (length history - 1 - i))) [0..<len]))"

section \<open>RebalancingEngine\<close>

record RebalanceRequest =
  user :: address
  fromProtocol :: string
  toProtocol :: string
  amount :: nat
  expectedYield :: nat
  estimatedGas :: nat
  req_timestamp :: nat
  executed :: bool
  cancelled :: bool

record OptimizationMetrics =
  totalRebalances :: nat
  totalProfitGenerated :: nat
  totalGasSaved :: nat
  averageYieldImprovement :: nat
  lastOptimizationRun :: nat

datatype re_event =
    RebalanceRequested nat address string string nat
  | RebalanceExecuted nat address string string nat nat nat
  | RebalanceCancelled nat string
  | AIEngineAuthorized address bool
  | OptimizationCompleted nat nat

record RebalancingEngine =
  rebalanceRequests :: "nat \<Rightarrow> RebalanceRequest"
  userRebalanceHistory :: "address \<Rightarrow> nat list"
  authorizedAIEngines :: "address \<Rightarrow> bool"
  metrics :: OptimizationMetrics
  requestCounter :: nat
  re_owner :: address
  re_paused :: bool
  re_events :: "re_event list"

text \<open>
  The engine calls the two other contracts, so its functions run on all three states.
  \<open>engineAddress\<close> is \<^verbatim>\<open>address(this)\<close> of the engine: the \<^verbatim>\<open>msg.sender\<close> that
  PortfolioManager sees, and the one the engine itself sees in a call through
  \<^verbatim>\<open>this.f(...)\<close>.
\<close>

record Deployment =
  portfolioManager :: PortfolioManager
  yieldOracle :: YieldOracle
  engine :: RebalancingEngine
  engineAddress :: address

definition empty_RebalanceRequest :: RebalanceRequest where
  "empty_RebalanceRequest =
     \<lparr>user = 0, fromProtocol = [], toProtocol = [], amount = 0, expectedYield = 0,
      estimatedGas = 0, req_timestamp = 0, executed = False, cancelled = False\<rparr>"

definition RebalancingEngine_init :: "address \<Rightarrow> nat \<Rightarrow> RebalancingEngine" where
  "RebalancingEngine_init deployer now =
     \<lparr>rebalanceRequests = (\<lambda>_. empty_RebalanceRequest), userRebalanceHistory = (\<lambda>_. []),
      authorizedAIEngines = (\<lambda>_. False),
      metrics = \<lparr>totalRebalances = 0, totalProfitGenerated = 0, totalGasSaved = 0,
                 averageYieldImprovement = 0, lastOptimizationRun = now\<rparr>,
      requestCounter = 0, re_owner = deployer, re_paused = False, re_events = []\<rparr>"

definition MAX_GAS_COST :: nat where
  "MAX_GAS_COST = 2 * 10 ^ 16"

definition PROFIT_MARGIN_REQUIREMENT :: nat where
  "PROFIT_MARGIN_REQUIREMENT = 1150"

definition REBALANCE_COOLDOWN :: nat where
  "REBALANCE_COOLDOWN = 3600"

text \<open>
  The internal functions \<^verbatim>\<open>_isProfitableRebalance\<close>, \<^verbatim>\<open>_calculateProfit\<close>,
  \<^verbatim>\<open>_updateMetrics\<close>, \<^verbatim>\<open>_mapRiskProfile\<close> and \<^verbatim>\<open>_estimateGasCost\<close>, without
  the leading underscore.
\<close>

definition isProfitableRebalance :: "address \<Rightarrow> nat \<Rightarrow> nat \<Rightarrow> nat \<Rightarrow> nat \<Rightarrow> error + bool" where
  "isProfitableRebalance usr curYield newYield gasCost portfolioValue =
     (if newYield \<le> curYield then Inr False
      else
        bind (checked_sub newYield curYield) (\<lambda>yieldImprovement.
        bind (checked_mul portfolioValue yieldImprovement) (\<lambda>product.
        bind (checked_div product 10000) (\<lambda>annualProfit.
        bind (checked_mul gasCost PROFIT_MARGIN_REQUIREMENT) (\<lambda>scaled.
        bind (checked_div scaled 1000) (\<lambda>requiredProfit.
          Inr (annualProfit \<ge> requiredProfit)))))))"

definition calculateProfit :: "nat \<Rightarrow> nat \<Rightarrow> nat \<Rightarrow> nat \<Rightarrow> error + nat" where
  "calculateProfit curYield newYield portfolioValue gasCost =
     (if newYield \<le> curYield then Inr 0
      else
        bind (checked_sub newYield curYield) (\<lambda>yieldImprovement.
        bind (checked_mul portfolioValue yieldImprovement) (\<lambda>product.
        bind (checked_div product 10000) (\<lambda>annualProfit.
          if annualProfit > gasCost then checked_sub annualProfit gasCost else Inr 0))))"

definition updateMetrics ::
  "OptimizationMetrics \<Rightarrow> RebalanceRequest \<Rightarrow> nat \<Rightarrow> error + OptimizationMetrics" where
  "updateMetrics m request oldYield =
     bind (checked_add (totalRebalances m) 1) (\<lambda>n.
     bind (calculateProfit oldYield (expectedYield request) (amount request)
             (estimatedGas request)) (\<lambda>profit.
     bind (checked_add (totalProfitGenerated m) profit) (\<lambda>total.
     bind (if expectedYield request > oldYield
           then checked_sub (expectedYield request) oldYield else Inr 0) (\<lambda>yieldImprovement.
     bind (checked_sub n 1) (\<lambda>previous.
     bind (checked_mul (averageYieldImprovement m) previous) (\<lambda>weighted.
     bind (checked_add weighted yieldImprovement) (\<lambda>numerator.
     bind (checked_div numerator n) (\<lambda>average.
       Inr (m\<lparr>totalRebalances := n, totalProfitGenerated := total,
              averageYieldImprovement := average\<rparr>)))))))))"

definition mapRiskProfile :: "nat \<Rightarrow> nat" where
  "mapRiskProfile portfolioRisk =
     (if portfolioRisk = 1 then 3
      else if portfolioRisk = 2 then 5
      else if portfolioRisk = 3 then 8
      else 5)"

definition estimateGasCost :: "string \<Rightarrow> string \<Rightarrow> error + nat" where
  "estimateGasCost fromP toP =
     (let baseCost = 5 * 10 ^ 15 in
      bind (if fromP = ''Curve'' \<or> toP = ''Curve''
            then checked_add baseCost (3 * 10 ^ 15) else Inr baseCost) (\<lambda>baseCost.
        if fromP = ''Yearn'' \<or> toP = ''Yearn''
        then checked_add baseCost (2 * 10 ^ 15) else Inr baseCost))"

text \<open>The modifiers \<^verbatim>\<open>onlyAuthorizedAI\<close> and \<^verbatim>\<open>validRequest\<close>.\<close>

definition onlyAuthorizedAI :: "RebalancingEngine \<Rightarrow> address \<Rightarrow> error + unit" where
  "onlyAuthorizedAI e sender =
     require (authorizedAIEngines e sender \<or> sender = re_owner e) ''Not authorized AI engine''"

definition validRequest :: "RebalancingEngine \<Rightarrow> nat \<Rightarrow> error + unit" where
  "validRequest e requestId =
     bind (require (requestId < requestCounter e) ''Invalid request ID'') (\<lambda>_.
     bind (require (\<not> executed (rebalanceRequests e requestId)) ''Request already executed'') (\<lambda>_.
       require (\<not> cancelled (rebalanceRequests e requestId)) ''Request cancelled''))"

definition requestRebalance ::
  "Deployment \<Rightarrow> address \<Rightarrow> nat \<Rightarrow> address \<Rightarrow> string \<Rightarrow> string \<Rightarrow> nat \<Rightarrow> nat
     \<Rightarrow> error + (Deployment \<times> nat)" where
  "requestRebalance w sender now usr fromP toP expYield estGas =
     (let e = engine w in
      bind (onlyAuthorizedAI e sender) (\<lambda>_.
      bind (require (\<not> re_paused e) ''Pausable: paused'') (\<lambda>_.
      bind (require (usr \<noteq> 0) ''Invalid user address'') (\<lambda>_.
      bind (require (estGas \<le> MAX_GAS_COST) ''Gas cost too high'') (\<lambda>_.
      bind (require (length fromP > 0) ''Empty from protocol'') (\<lambda>_.
      bind (require (length toP > 0) ''Empty to protocol'') (\<lambda>_.
        case getPortfolio (portfolioManager w) usr of
          (totalV, curYield, curProtocol, profile, autoEnabled, _, _) \<Rightarrow>
      bind (require autoEnabled ''Auto-rebalance disabled'') (\<lambda>_.
      bind (require (totalV > 0) ''Empty portfolio'') (\<lambda>_.
      bind (require (curProtocol = fromP) ''From protocol mismatch'') (\<lambda>_.
      bind (isProfitableRebalance usr curYield expYield estGas totalV) (\<lambda>profitable.
      bind (require profitable ''Rebalancing not profitable'') (\<lambda>_.
      bind (case userRebalanceHistory e usr of
              [] \<Rightarrow> Inr ()
            | _ # _ \<Rightarrow>
                bind (checked_sub now
                        (req_timestamp (rebalanceRequests e (last (userRebalanceHistory e usr)))))
                  (\<lambda>elapsed. require (elapsed \<ge> REBALANCE_COOLDOWN) ''Cooldown period active''))
        (\<lambda>_.
      bind (checked_add (requestCounter e) 1) (\<lambda>counter.
        let requestId = requestCounter e in
        Inr (w\<lparr>engine := e\<lparr>
                 requestCounter := counter,
                 rebalanceRequests := (rebalanceRequests e)(requestId :=
                   \<lparr>user = usr, fromProtocol = fromP, toProtocol = toP, amount = totalV,
                    expectedYield = expYield, estimatedGas = estGas, req_timestamp = now,
                    executed = False, cancelled = False\<rparr>),
                 userRebalanceHistory := (userRebalanceHistory e)(usr :=
                   userRebalanceHistory e usr @ [requestId]),
                 re_events := re_events e @
                   [RebalanceRequested requestId usr fromP toP expYield]\<rparr>\<rparr>,
             requestId)))))))))))))))"

text \<open>
  RebalancingEngine.executeRebalance. The \<^verbatim>\<open>try\<close> statement has three outcomes: the
  call of PortfolioManager returns and the success block runs; it fails with
  \<^verbatim>\<open>Error(string)\<close> and the one \<^verbatim>\<open>catch\<close> clause runs, on the state PortfolioManager
  had before the call; it fails in any other way, no clause matches, and the failure
  goes on to the engine's caller.
\<close>

definition RebalancingEngine_executeRebalance ::
  "Deployment \<Rightarrow> address \<Rightarrow> nat \<Rightarrow> nat \<Rightarrow> error + Deployment" where
  "RebalancingEngine_executeRebalance w sender now requestId =
     (let e = engine w in
      bind (onlyAuthorizedAI e sender) (\<lambda>_.
      bind (validRequest e requestId) (\<lambda>_.
      bind (require (\<not> re_paused e) ''Pausable: paused'') (\<lambda>_.
        let request = rebalanceRequests e requestId in
        case getPortfolio (portfolioManager w) (user request) of
          (totalV, curYield, _, _, autoEnabled, _, _) \<Rightarrow>
      bind (require autoEnabled ''Auto-rebalance disabled'') (\<lambda>_.
      bind (isProfitableRebalance (user request) curYield (expectedYield request)
              (estimatedGas request) totalV) (\<lambda>profitable.
      bind (require profitable ''No longer profitable'') (\<lambda>_.
        case PortfolioManager_executeRebalance (portfolioManager w) (engineAddress w) now
               (user request) (fromProtocol request) (toProtocol request)
               (expectedYield request) (estimatedGas request) of
          Inr pm' \<Rightarrow>
            bind (updateMetrics (metrics e) (request\<lparr>executed := True\<rparr>) curYield) (\<lambda>m.
            bind (calculateProfit curYield (expectedYield request) totalV
                    (estimatedGas request)) (\<lambda>profit.
              Inr (w\<lparr>portfolioManager := pm',
                     engine := e\<lparr>
                       rebalanceRequests := (rebalanceRequests e)(requestId :=
                         request\<lparr>executed := True\<rparr>),
                       metrics := m,
                       re_events := re_events e @
                         [RebalanceExecuted requestId (user request) (fromProtocol request)
                            (toProtocol request) (amount request) (expectedYield request)
                            profit]\<rparr>\<rparr>)))
        | Inl (Revert reason) \<Rightarrow>
            Inr (w\<lparr>engine := e\<lparr>
                   rebalanceRequests := (rebalanceRequests e)(requestId :=
                     request\<lparr>cancelled := True\<rparr>),
                   re_events := re_events e @ [RebalanceCancelled requestId reason]\<rparr>\<rparr>)
        | Inl Panic \<Rightarrow> Inl Panic)))))))"

definition cancelRebalance ::
  "Deployment \<Rightarrow> address \<Rightarrow> nat \<Rightarrow> string \<Rightarrow> error + Deployment" where
  "cancelRebalance w sender requestId reason =
     (let e = engine w in
      bind (onlyAuthorizedAI e sender) (\<lambda>_.
      bind (validRequest e requestId) (\<lambda>_.
        Inr (w\<lparr>engine := e\<lparr>
               rebalanceRequests := (rebalanceRequests e)(requestId :=
                 (rebalanceRequests e requestId)\<lparr>cancelled := True\<rparr>),
               re_events := re_events e @ [RebalanceCancelled requestId reason]\<rparr>\<rparr>))))"

text \<open>
  The loop of \<^verbatim>\<open>batchOptimization\<close>, with \<^verbatim>\<open>(optimizedCount, totalProfit)\<close> as the
  accumulator. \<^verbatim>\<open>try this.requestRebalance(...) ... catch\<close> guards the call of
  \<^verbatim>\<open>requestRebalance\<close> alone: whatever fails inside the success block, where
  \<^verbatim>\<open>this.executeRebalance(requestId)\<close> stands, is a failure of \<^verbatim>\<open>batchOptimization\<close>.
\<close>

fun batchOptimization_loop ::
  "Deployment \<Rightarrow> nat \<Rightarrow> address list \<Rightarrow> nat \<times> nat \<Rightarrow> error + (Deployment \<times> nat \<times> nat)" where
  "batchOptimization_loop w now [] (optimizedCount, totalP) = Inr (w, optimizedCount, totalP)"
| "batchOptimization_loop w now (usr # rest) (optimizedCount, totalP) =
     (case getPortfolio (portfolioManager w) usr of
        (totalV, curYield, curProtocol, profile, autoEnabled, _, _) \<Rightarrow>
      if \<not> autoEnabled \<or> totalV = 0
      then batchOptimization_loop w now rest (optimizedCount, totalP)
      else
        bind (getBestYieldForRisk (yieldOracle w) now
                (mapRiskProfile (uint8_of_RiskProfile profile)) (50000000 * 10 ^ 18))
          (\<lambda>(bestProtocol, bestYield, bestRiskScore).
        if length bestProtocol > 0 \<and> bestYield > curYield \<and>
           bestRiskScore \<le> mapRiskProfile (uint8_of_RiskProfile profile)
        then
          bind (estimateGasCost curProtocol bestProtocol) (\<lambda>estGas.
          bind (isProfitableRebalance usr curYield bestYield estGas totalV) (\<lambda>profitable.
            if profitable
            then
              (case requestRebalance w (engineAddress w) now usr curProtocol bestProtocol
                      bestYield estGas of
                 Inr (w1, requestId) \<Rightarrow>
                   bind (RebalancingEngine_executeRebalance w1 (engineAddress w) now requestId)
                     (\<lambda>w2.
                   bind (checked_add optimizedCount 1) (\<lambda>optimizedCount.
                   bind (calculateProfit curYield bestYield totalV estGas) (\<lambda>profit.
                   bind (checked_add totalP profit) (\<lambda>totalP.
                     batchOptimization_loop w2 now rest (optimizedCount, totalP)))))
               | Inl _ \<Rightarrow> batchOptimization_loop w now rest (optimizedCount, totalP))
            else batchOptimization_loop w now rest (optimizedCount, totalP)))
        else batchOptimization_loop w now rest (optimizedCount, totalP)))"

definition batchOptimization ::
  "Deployment \<Rightarrow> address \<Rightarrow> nat \<Rightarrow> address list \<Rightarrow> error + Deployment" where
  "batchOptimization w sender now users =
     bind (onlyAuthorizedAI (engine w) sender) (\<lambda>_.
     bind (require (\<not> re_paused (engine w)) ''Pausable: paused'') (\<lambda>_.
     bind (batchOptimization_loop w now users (0, 0)) (\<lambda>(w', optimizedCount, totalP).
       Inr (w'\<lparr>engine := (engine w')\<lparr>
              metrics := (metrics (engine w'))\<lparr>lastOptimizationRun := now\<rparr>,
              re_events := re_events (engine w') @
                [OptimizationCompleted optimizedCount totalP]\<rparr>\<rparr>))))"

definition authorizeAIEngine ::
  "Deployment \<Rightarrow> address \<Rightarrow> address \<Rightarrow> bool \<Rightarrow> error + Deployment" where
  "authorizeAIEngine w sender aiEngine authorized =
     (let e = engine w in
      bind (require (sender = re_owner e) ''Ownable: caller is not the owner'') (\<lambda>_.
        Inr (w\<lparr>engine := e\<lparr>
               authorizedAIEngines := (authorizedAIEngines e)(aiEngine := authorized),
               re_events := re_events e @ [AIEngineAuthorized aiEngine authorized]\<rparr>\<rparr>)))"

section \<open>Sequences of calls\<close>

text \<open>
  A transaction is a call with the \<^verbatim>\<open>block.timestamp\<close> it runs at. A sequence of
  transactions runs until one fails.
\<close>

datatype pm_call =
    CreatePortfolio address nat nat
  | DepositFunds address nat
  | WithdrawFunds address nat bool
  | UpdateRiskProfile address nat
  | ToggleAutoRebalance address
  | ExecuteRebalance address address string string nat nat
  | AuthorizeRebalancer address address bool
  | Pause address
  | Unpause address

fun pm_step :: "PortfolioManager \<Rightarrow> nat \<Rightarrow> pm_call \<Rightarrow> error + PortfolioManager" where
  "pm_step pm now (CreatePortfolio sender val rp) = createPortfolio pm sender val now rp"
| "pm_step pm now (DepositFunds sender val) = depositFunds pm sender val"
| "pm_step pm now (WithdrawFunds sender amt ok) = withdrawFunds pm sender amt ok"
| "pm_step pm now (UpdateRiskProfile sender rp) = updateRiskProfile pm sender rp"
| "pm_step pm now (ToggleAutoRebalance sender) = toggleAutoRebalance pm sender"
| "pm_step pm now (ExecuteRebalance sender usr fromP toP y g) =
     PortfolioManager_executeRebalance pm sender now usr fromP toP y g"
| "pm_step pm now (AuthorizeRebalancer sender a b) = authorizeRebalancer pm sender a b"
| "pm_step pm now (Pause sender) = pm_pause pm sender"
| "pm_step pm now (Unpause sender) = pm_unpause pm sender"

fun pm_run :: "PortfolioManager \<Rightarrow> (nat \<times> pm_call) list \<Rightarrow> error + PortfolioManager" where
  "pm_run pm [] = Inr pm"
| "pm_run pm ((now, c) # cs) = bind (pm_step pm now c) (\<lambda>pm'. pm_run pm' cs)"

datatype yo_call =
    UpdateYield address string nat nat nat
  | AddProtocol address string nat
  | DeactivateProtocol address string string
  | AuthorizeUpdater address address bool

fun yo_step :: "YieldOracle \<Rightarrow> nat \<Rightarrow> yo_call \<Rightarrow> error + YieldOracle" where
  "yo_step yo now (UpdateYield sender name a t r) = updateYield yo sender now name a t r"
| "yo_step yo now (AddProtocol sender name r) = addProtocol yo sender now name r"
| "yo_step yo now (DeactivateProtocol sender name reason) =
     deactivateProtocol yo sender name reason"
| "yo_step yo now (AuthorizeUpdater sender a b) = authorizeUpdater yo sender a b"

fun yo_run :: "YieldOracle \<Rightarrow> (nat \<times> yo_call) list \<Rightarrow> error + YieldOracle" where
  "yo_run yo [] = Inr yo"
| "yo_run yo ((now, c) # cs) = bind (yo_step yo now c) (\<lambda>yo'. yo_run yo' cs)"

datatype call =
    ManagerCall pm_call
  | OracleCall yo_call
  | RequestRebalance address address string string nat nat
  | ExecuteRequest address nat
  | CancelRebalance address nat string
  | BatchOptimization address "address list"
  | AuthorizeAIEngine address address bool

fun step :: "Deployment \<Rightarrow> nat \<Rightarrow> call \<Rightarrow> error + Deployment" where
  "step w now (ManagerCall c) =
     bind (pm_step (portfolioManager w) now c) (\<lambda>pm. Inr (w\<lparr>portfolioManager := pm\<rparr>))"
| "step w now (OracleCall c) =
     bind (yo_step (yieldOracle w) now c) (\<lambda>yo. Inr (w\<lparr>yieldOracle := yo\<rparr>))"
| "step w now (RequestRebalance sender usr fromP toP y g) =
     bind (requestRebalance w sender now usr fromP toP y g) (\<lambda>(w', requestId). Inr w')"
| "step w now (ExecuteRequest sender requestId) =
     RebalancingEngine_executeRebalance w sender now requestId"
| "step w now (CancelRebalance sender requestId reason) =
     cancelRebalance w sender requestId reason"
| "step w now (BatchOptimization sender users) = batchOptimization w sender now users"
| "step w now (AuthorizeAIEngine sender a b) = authorizeAIEngine w sender a b"

fun run :: "Deployment \<Rightarrow> (nat \<times> call) list \<Rightarrow> error + Deployment" where
  "run w [] = Inr w"
| "run w ((now, c) # cs) = bind (step w now c) (\<lambda>w'. run w' cs)"

text \<open>The three contracts as \<open>deployer\<close> deploys them at time \<open>now\<close>, the engine at \<open>addr\<close>.\<close>

definition deploy :: "address \<Rightarrow> nat \<Rightarrow> address \<Rightarrow> error + Deployment" where
  "deploy deployer now addr =
     bind (YieldOracle_init deployer now) (\<lambda>yo.
       Inr \<lparr>portfolioManager = PortfolioManager_init deployer, yieldOracle = yo,
            engine = RebalancingEngine_init deployer now, engineAddress = addr\<rparr>)"

section \<open>Definitions for stating the properties\<close>

text \<open>
  The profitability rule in the specification's words: the new yield exceeds the current
  one by more than 50 basis points, and the annual profit covers the cost with a 15%
  margin, in integer arithmetic.
\<close>

definition profitability_spec :: "Portfolio \<Rightarrow> nat \<Rightarrow> nat \<Rightarrow> bool" where
  "profitability_spec p newYield cost =
     (newYield > currentYield p + 50 \<and>
      totalValue p * (newYield - currentYield p) div 10000 \<ge> cost * 115 div 100)"

text \<open>
  The intermediate values the code computes fit in a \<^verbatim>\<open>uint256\<close>: the threshold
  always, the product and the scaled cost when the threshold is passed.
\<close>

definition fits_uint256 :: "Portfolio \<Rightarrow> nat \<Rightarrow> nat \<Rightarrow> bool" where
  "fits_uint256 p newYield cost =
     (currentYield p + 50 \<le> MAX_UINT256 \<and>
      (newYield \<le> currentYield p + 50 \<or>
       totalValue p * (newYield - currentYield p) \<le> MAX_UINT256 \<and>
       cost * 115 \<le> MAX_UINT256))"

text \<open>
  What a sequence of calls says an owner paid at creation, deposited and withdrew: read
  from the arguments of the calls, not from the ledger.
\<close>

fun initial_deposit :: "address \<Rightarrow> pm_call \<Rightarrow> nat" where
  "initial_deposit u (CreatePortfolio sender val rp) = (if sender = u then val else 0)"
| "initial_deposit u _ = 0"

fun deposited :: "address \<Rightarrow> pm_call \<Rightarrow> nat" where
  "deposited u (DepositFunds sender val) = (if sender = u then val else 0)"
| "deposited u _ = 0"

fun withdrawn :: "address \<Rightarrow> pm_call \<Rightarrow> nat" where
  "withdrawn u (WithdrawFunds sender amt ok) = (if sender = u then amt else 0)"
| "withdrawn u _ = 0"

definition total_initial :: "address \<Rightarrow> (nat \<times> pm_call) list \<Rightarrow> nat" where
  "total_initial u cs = sum_list (map (\<lambda>(now, c). initial_deposit u c) cs)"

definition total_deposited :: "address \<Rightarrow> (nat \<times> pm_call) list \<Rightarrow> nat" where
  "total_deposited u cs = sum_list (map (\<lambda>(now, c). deposited u c) cs)"

definition total_withdrawn :: "address \<Rightarrow> (nat \<times> pm_call) list \<Rightarrow> nat" where
  "total_withdrawn u cs = sum_list (map (\<lambda>(now, c). withdrawn u c) cs)"

text \<open>
  A venue is eligible for a query when its record is active, within the risk ceiling,
  above the liquidity floor and not stale.
\<close>

definition eligible :: "YieldOracle \<Rightarrow> nat \<Rightarrow> nat \<Rightarrow> nat \<Rightarrow> string \<Rightarrow> bool" where
  "eligible yo now maxRisk minTvl name =
     (active (protocolYields yo name) \<and> riskScore (protocolYields yo name) \<le> maxRisk \<and>
      tvl (protocolYields yo name) \<ge> minTvl \<and>
      now - timestamp (protocolYields yo name) \<le> MAX_STALENESS)"

text \<open>
  \<open>name\<close> is the first venue, in registration order, among the eligible venues of the
  highest apy.
\<close>

definition first_best :: "YieldOracle \<Rightarrow> nat \<Rightarrow> nat \<Rightarrow> nat \<Rightarrow> string \<Rightarrow> bool" where
  "first_best yo now maxRisk minTvl name =
     (\<exists>i<length (supportedProtocols yo).
        supportedProtocols yo ! i = name \<and> eligible yo now maxRisk minTvl name \<and>
        (\<forall>n\<in>set (supportedProtocols yo).
           eligible yo now maxRisk minTvl n \<longrightarrow>
           apy (protocolYields yo n) \<le> apy (protocolYields yo name)) \<and>
        (\<forall>j<i. eligible yo now maxRisk minTvl (supportedProtocols yo ! j) \<longrightarrow>
           apy (protocolYields yo (supportedProtocols yo ! j)) < apy (protocolYields yo name)))"

text \<open>The number of \<^verbatim>\<open>updateYield\<close> calls for a venue in a sequence.\<close>

fun updates_of :: "string \<Rightarrow> (nat \<times> yo_call) list \<Rightarrow> nat" where
  "updates_of name [] = 0"
| "updates_of name ((now, UpdateYield sender n a t r) # cs) =
     (if n = name then 1 else 0) + updates_of name cs"
| "updates_of name (_ # cs) = updates_of name cs"

text \<open>
  The admission checks of \<^verbatim>\<open>requestRebalance\<close> that come before the cooldown:
  authorization, pause, arguments, portfolio and profitability.
\<close>

definition admitted_before_cooldown ::
  "Deployment \<Rightarrow> address \<Rightarrow> address \<Rightarrow> string \<Rightarrow> string \<Rightarrow> nat \<Rightarrow> nat \<Rightarrow> bool" where
  "admitted_before_cooldown w sender usr fromP toP expYield estGas =
     ((authorizedAIEngines (engine w) sender \<or> sender = re_owner (engine w)) \<and>
      \<not> re_paused (engine w) \<and> usr \<noteq> 0 \<and> estGas \<le> MAX_GAS_COST \<and>
      fromP \<noteq> [] \<and> toP \<noteq> [] \<and>
      autoRebalanceEnabled (portfolios (portfolioManager w) usr) \<and>
      totalValue (portfolios (portfolioManager w) usr) > 0 \<and>
      currentProtocol (portfolios (portfolioManager w) usr) = fromP \<and>
      isProfitableRebalance usr (currentYield (portfolios (portfolioManager w) usr))
        expYield estGas (totalValue (portfolios (portfolioManager w) usr)) = Inr True)"

text \<open>A request is pending when it was created and is neither executed nor cancelled.\<close>

definition pending :: "RebalancingEngine \<Rightarrow> nat \<Rightarrow> bool" where
  "pending e requestId =
     (requestId < requestCounter e \<and> \<not> executed (rebalanceRequests e requestId) \<and>
      \<not> cancelled (rebalanceRequests e requestId))"

text \<open>
  For a request: the profitability re-validation that executeRebalance runs against the
  portfolio as it is now, and the ledger mutation it then attempts.
\<close>

definition revalidation :: "Deployment \<Rightarrow> nat \<Rightarrow> error + bool" where
  "revalidation w requestId =
     (let request = rebalanceRequests (engine w) requestId;
          p = portfolios (portfolioManager w) (user request)
      in isProfitableRebalance (user request) (currentYield p) (expectedYield request)
           (estimatedGas request) (totalValue p))"

definition ledger_mutation :: "Deployment \<Rightarrow> nat \<Rightarrow> nat \<Rightarrow> error + PortfolioManager" where
  "ledger_mutation w now requestId =
     (let request = rebalanceRequests (engine w) requestId
      in PortfolioManager_executeRebalance (portfolioManager w) (engineAddress w) now
           (user request) (fromProtocol request) (toProtocol request)
           (expectedYield request) (estimatedGas request))"

text \<open>
  The market of the specification's example, as the owner reports it at time 1000, and
  three portfolios: 1 ether, 0.01 ether and 1 ether, each Balanced and on Aave at 3.20%.
\<close>

definition market :: "(nat \<times> call) list" where
  "market =
     [(1000, OracleCall (UpdateYield 100 ''Aave'' 320 (2500000000 * 10 ^ 18) 2)),
      (1000, OracleCall (UpdateYield 100 ''Compound'' 780 (1800000000 * 10 ^ 18) 2)),
      (1000, OracleCall (UpdateYield 100 ''Curve'' 540 (850000000 * 10 ^ 18) 3)),
      (1000, OracleCall (UpdateYield 100 ''Uniswap'' 420 (420000000 * 10 ^ 18) 4))]"

definition three_users :: "(nat \<times> call) list" where
  "three_users =
     [(1000, ManagerCall (CreatePortfolio 11 (10 ^ 18) 1)),
      (1000, ManagerCall (CreatePortfolio 12 (10 ^ 16) 1)),
      (1000, ManagerCall (CreatePortfolio 13 (10 ^ 18) 1))]"

section \<open>Facts about the building blocks\<close>

lemma bind_Inr_iff: "bind m f = Inr y \<longleftrightarrow> (\<exists>v. m = Inr v \<and> f v = Inr y)"
  by (cases m) auto

lemma require_Inr_iff: "require c msg = Inr v \<longleftrightarrow> c"
  by (simp add: require_def)

lemma checked_add_Inr_iff: "checked_add a b = Inr v \<longleftrightarrow> v = a + b \<and> a + b \<le> MAX_UINT256"
  by (auto simp: checked_add_def)

lemma checked_sub_Inr_iff: "checked_sub a b = Inr v \<longleftrightarrow> v = a - b \<and> b \<le> a"
  by (auto simp: checked_sub_def)

lemma checked_mul_Inr_iff: "checked_mul a b = Inr v \<longleftrightarrow> v = a * b \<and> a * b \<le> MAX_UINT256"
  by (auto simp: checked_mul_def)

lemma checked_div_Inr_iff: "checked_div a b = Inr v \<longleftrightarrow> v = a div b \<and> b \<noteq> 0"
  by (auto simp: checked_div_def)

lemmas Inr_iffs = bind_Inr_iff require_Inr_iff checked_add_Inr_iff checked_sub_Inr_iff
  checked_mul_Inr_iff checked_div_Inr_iff

text \<open>The definitions a concrete run unfolds.\<close>

lemmas arith_defs = require_def checked_add_def checked_sub_def checked_mul_def
  checked_div_def MAX_UINT256_def Let_def

lemmas pm_defs = createPortfolio_def depositFunds_def withdrawFunds_def updateRiskProfile_def
  toggleAutoRebalance_def checkRebalanceProfitability_def PortfolioManager_executeRebalance_def
  getPortfolio_def authorizeRebalancer_def pm_pause_def pm_unpause_def PortfolioManager_init_def
  empty_Portfolio_def MIN_DEPOSIT_def MIN_YIELD_IMPROVEMENT_def MAX_GAS_THRESHOLD_def

lemmas yo_defs = addProtocol_internal_def isStaleData_def YieldOracle_init_def updateYield_def
  getBestYieldForRisk_def addProtocol_def deactivateProtocol_def authorizeUpdater_def
  empty_YieldData_def MAX_STALENESS_def MIN_TVL_THRESHOLD_def

lemmas re_defs = isProfitableRebalance_def calculateProfit_def updateMetrics_def
  mapRiskProfile_def estimateGasCost_def onlyAuthorizedAI_def validRequest_def
  requestRebalance_def RebalancingEngine_executeRebalance_def cancelRebalance_def
  batchOptimization_def authorizeAIEngine_def RebalancingEngine_init_def
  empty_RebalanceRequest_def MAX_GAS_COST_def PROFIT_MARGIN_REQUIREMENT_def
  REBALANCE_COOLDOWN_def deploy_def

section \<open>PortfolioManager: the rebalance, the profitability rule, the balance\<close>

text \<open>
  What a successful PortfolioManager.executeRebalance has done. The yield difference is
  computed from the yield already overwritten, so it is 0, the annual profit is 0, and
  \<^verbatim>\<open>annualProfit.sub(gasCost)\<close> succeeds for no cost but 0: the call can only succeed
  with \<open>gasCost = 0\<close>, and then it adds nothing to \<open>totalProfit\<close>.
\<close>

lemma PortfolioManager_executeRebalance_Inr:
  assumes "PortfolioManager_executeRebalance pm sender now usr fromP toP y g = Inr pm'"
  shows "g = 0"
    and "portfolios pm' = (portfolios pm)(usr := (portfolios pm usr)\<lparr>currentProtocol := toP,
            currentYield := y, lastRebalance := now\<rparr>)"
    and "checkRebalanceProfitability pm usr y g = Inr True"
    and "authorizedRebalancers pm sender"
    and "pm_paused pm' = pm_paused pm"
  using assms
  by (auto simp: PortfolioManager_executeRebalance_def Inr_iffs Let_def)

text \<open>
  C1. The claim: a successful applyRebalance (PortfolioManager.executeRebalance) sets
  currentProtocol, currentYield and lastRebalanceTimestamp and increases cumulativeProfit
  by totalValue * (newYield - oldCurrentYield) / 10000 - cost. The code does not: after
  a portfolio of 0.01 ether is created at 3.20% and moved to Compound at 7.80% for a cost
  of 0, the three fields are set but totalProfit is still 0, where the claim's increase
  is 10^16 * (780 - 320) / 10000 - 0 = 460000000000000.
\<close>

theorem executeRebalance_adds_no_profit:
  "bind (pm_run (PortfolioManager_init 100)
           [(1000, CreatePortfolio 11 (10 ^ 16) 1),
            (1000, AuthorizeRebalancer 100 200 True),
            (2000, ExecuteRebalance 200 11 ''Aave'' ''Compound'' 780 0)])
      (\<lambda>pm. Inr (portfolios pm 11)) =
    Inr \<lparr>totalValue = 10 ^ 16, currentYield = 780, currentProtocol = ''Compound'',
         riskProfile = BALANCED, autoRebalanceEnabled = True, lastRebalance = 2000,
         totalProfit = 0\<rparr>
   \<and> (10 ^ 16 * (780 - 320) div 10000 - 0 = (460000000000000 :: nat))"
  by (simp add: arith_defs pm_defs)

text \<open>And with any cost but 0 the same call fails, whatever the portfolio.\<close>

lemma executeRebalance_fails_with_cost:
  "g > 0 \<Longrightarrow> \<exists>e. PortfolioManager_executeRebalance pm sender now usr fromP toP y g = Inl e"
  using PortfolioManager_executeRebalance_Inr(1)[of pm sender now usr fromP toP y g]
  by (cases "PortfolioManager_executeRebalance pm sender now usr fromP toP y g") auto

lemma checkRebalanceProfitability_eq:
  "checkRebalanceProfitability pm u newYield cost =
     (if fits_uint256 (portfolios pm u) newYield cost
      then Inr (profitability_spec (portfolios pm u) newYield cost) else Inl Panic)"
  by (auto simp: checkRebalanceProfitability_def profitability_spec_def fits_uint256_def
      checked_add_def checked_sub_def checked_mul_def checked_div_def
      MIN_YIELD_IMPROVEMENT_def Let_def)

text \<open>
  C3, as stated, fails: checkRebalanceProfitability does not return true whenever the
  rule holds. For the portfolio of 0.01 ether at 3.20%, a new yield of 2^256 - 1 and a
  cost of 0 the rule holds, and the call reverts: the product overflows in
  \<^verbatim>\<open>portfolio.totalValue.mul(yieldImprovement)\<close>.
\<close>

theorem checkRebalanceProfitability_overflow:
  "bind (pm_run (PortfolioManager_init 100) [(1000, CreatePortfolio 11 (10 ^ 16) 1)])
      (\<lambda>pm. Inr (checkRebalanceProfitability pm 11 (2 ^ 256 - 1) 0,
                  profitability_spec (portfolios pm 11) (2 ^ 256 - 1) 0)) =
    Inr (Inl Panic, True)"
  by (simp add: arith_defs pm_defs profitability_spec_def)

text \<open>
  C3, amended. checkRebalanceProfitability(owner, newYield, cost) changes no state (it
  returns a result and no ledger). When the values it computes fit in 256 bits
  (currentYield + 50, and past the threshold totalValue * (newYield - currentYield) and
  cost * 115), it returns true if and only if newYield > currentYield + 50 and
  totalValue * (newYield - currentYield) / 10000 >= cost * 115 / 100 in integer
  arithmetic; when one of them does not fit, it reverts. For totalValue = 10000,
  currentYield = 320 and newYield = 780 it returns true for cost 3 and false for cost 500.
\<close>

theorem checkRebalanceProfitability_rule:
  "(fits_uint256 (portfolios pm u) newYield cost \<longrightarrow>
      checkRebalanceProfitability pm u newYield cost =
        Inr (profitability_spec (portfolios pm u) newYield cost)) \<and>
   (\<not> fits_uint256 (portfolios pm u) newYield cost \<longrightarrow>
      checkRebalanceProfitability pm u newYield cost = Inl Panic) \<and>
   (totalValue (portfolios pm u) = 10000 \<and> currentYield (portfolios pm u) = 320 \<longrightarrow>
      checkRebalanceProfitability pm u 780 3 = Inr True \<and>
      checkRebalanceProfitability pm u 780 500 = Inr False)"
proof (intro conjI impI)
  assume "totalValue (portfolios pm u) = 10000 \<and> currentYield (portfolios pm u) = 320"
  then show "checkRebalanceProfitability pm u 780 3 = Inr True"
    and "checkRebalanceProfitability pm u 780 500 = Inr False"
    by (simp_all add: checkRebalanceProfitability_def arith_defs MIN_YIELD_IMPROVEMENT_def)
qed (simp_all add: checkRebalanceProfitability_eq)

theorem checkRebalanceProfitability_rule_witness:
  "\<exists>pm. pm_run (PortfolioManager_init 100)
           [(1000, CreatePortfolio 11 (10 ^ 16) 1),
            (1500, WithdrawFunds 11 (10 ^ 16 - 10000) True)] = Inr pm \<and>
     totalValue (portfolios pm 11) = 10000 \<and> currentYield (portfolios pm 11) = 320 \<and>
     fits_uint256 (portfolios pm 11) 780 3 \<and>
     checkRebalanceProfitability pm 11 780 3 = Inr True \<and>
     checkRebalanceProfitability pm 11 780 500 = Inr False \<and>
     \<not> fits_uint256 (portfolios pm 11) (2 ^ 256 - 1) 0 \<and>
     checkRebalanceProfitability pm 11 (2 ^ 256 - 1) 0 = Inl Panic"
proof -
  obtain pm where run: "pm_run (PortfolioManager_init 100)
           [(1000, CreatePortfolio 11 (10 ^ 16) 1),
            (1500, WithdrawFunds 11 (10 ^ 16 - 10000) True)] = Inr pm"
    and tv: "totalValue (portfolios pm 11) = 10000"
    and cy: "currentYield (portfolios pm 11) = 320"
    by (simp add: arith_defs pm_defs)
  have fits: "fits_uint256 (portfolios pm 11) 780 3"
    and over: "\<not> fits_uint256 (portfolios pm 11) (2 ^ 256 - 1) 0"
    by (simp_all add: fits_uint256_def tv cy MAX_UINT256_def)
  from checkRebalanceProfitability_rule[of pm 11 780 3]
    checkRebalanceProfitability_rule[of pm 11 "2 ^ 256 - 1" 0] run tv cy fits over
  show ?thesis by blast
qed

lemma pm_step_totalValue:
  assumes "pm_step pm now c = Inr pm'"
  shows "totalValue (portfolios pm' u) + withdrawn u c =
         totalValue (portfolios pm u) + initial_deposit u c + deposited u c"
proof (cases c)
  case (ExecuteRebalance sender usr fromP toP y g)
  with assms have "portfolios pm' = (portfolios pm)(usr :=
      (portfolios pm usr)\<lparr>currentProtocol := toP, currentYield := y, lastRebalance := now\<rparr>)"
    by (simp add: PortfolioManager_executeRebalance_Inr(2))
  with ExecuteRebalance show ?thesis by simp
qed (use assms in \<open>auto simp: createPortfolio_def depositFunds_def withdrawFunds_def
      updateRiskProfile_def toggleAutoRebalance_def authorizeRebalancer_def pm_pause_def
      pm_unpause_def Inr_iffs\<close>)

lemma pm_run_totalValue:
  "pm_run pm cs = Inr pm' \<Longrightarrow>
   totalValue (portfolios pm' u) + total_withdrawn u cs =
   totalValue (portfolios pm u) + total_initial u cs + total_deposited u cs"
proof (induction cs arbitrary: pm)
  case Nil
  then show ?case by (simp add: total_initial_def total_deposited_def total_withdrawn_def)
next
  case (Cons a cs)
  obtain now c where a: "a = (now, c)" by (cases a)
  from Cons.prems a obtain pm1
    where s: "pm_step pm now c = Inr pm1" and r: "pm_run pm1 cs = Inr pm'"
    by (auto simp: bind_Inr_iff)
  from Cons.IH[OF r] pm_step_totalValue[OF s, of u] a show ?case
    by (simp add: total_initial_def total_deposited_def total_withdrawn_def)
qed

text \<open>
  C4. After any sequence of successful calls of PortfolioManager from deployment
  (createPortfolio, depositFunds, withdrawFunds, executeRebalance, and the other calls
  too), an owner's totalValue is the initial deposit plus the deposits minus the
  withdrawals, which is never negative; a rebalance leaves every totalValue as it was;
  and withdrawFunds fails whenever the amount exceeds totalValue.
\<close>

theorem totalValue_is_deposits_minus_withdrawals:
  "(pm_run (PortfolioManager_init deployer) cs = Inr pm \<longrightarrow>
      int (totalValue (portfolios pm u)) =
        int (total_initial u cs) + int (total_deposited u cs) - int (total_withdrawn u cs) \<and>
      0 \<le> int (total_initial u cs) + int (total_deposited u cs) - int (total_withdrawn u cs)) \<and>
   (PortfolioManager_executeRebalance pm1 sender now usr fromP toP y g = Inr pm2 \<longrightarrow>
      totalValue (portfolios pm2 v) = totalValue (portfolios pm1 v)) \<and>
   (amt > totalValue (portfolios pm1 s) \<longrightarrow>
      withdrawFunds pm1 s amt ok =
        Inl (Revert (if pm_paused pm1 then ''Pausable: paused'' else ''Insufficient balance'')))"
proof (intro conjI impI)
  assume run: "pm_run (PortfolioManager_init deployer) cs = Inr pm"
  have "totalValue (portfolios pm u) + total_withdrawn u cs =
        total_initial u cs + total_deposited u cs"
    using pm_run_totalValue[OF run, of u]
    by (simp add: PortfolioManager_init_def empty_Portfolio_def)
  then show "int (totalValue (portfolios pm u)) =
        int (total_initial u cs) + int (total_deposited u cs) - int (total_withdrawn u cs)"
    and "0 \<le> int (total_initial u cs) + int (total_deposited u cs) - int (total_withdrawn u cs)"
    by linarith+
next
  assume "PortfolioManager_executeRebalance pm1 sender now usr fromP toP y g = Inr pm2"
  then show "totalValue (portfolios pm2 v) = totalValue (portfolios pm1 v)"
    by (simp add: PortfolioManager_executeRebalance_Inr(2))
next
  assume "amt > totalValue (portfolios pm1 s)"
  then show "withdrawFunds pm1 s amt ok =
        Inl (Revert (if pm_paused pm1 then ''Pausable: paused'' else ''Insufficient balance''))"
    by (simp add: withdrawFunds_def require_def)
qed

theorem totalValue_is_deposits_minus_withdrawals_witness:
  "\<exists>pm pm2. pm_run (PortfolioManager_init 100)
           [(1000, CreatePortfolio 11 (10 ^ 16) 1),
            (1000, AuthorizeRebalancer 100 200 True),
            (1100, DepositFunds 11 500),
            (1200, WithdrawFunds 11 200 True),
            (2000, ExecuteRebalance 200 11 ''Aave'' ''Compound'' 780 0)] = Inr pm \<and>
     int (totalValue (portfolios pm 11)) = int (10 ^ 16) + 500 - 200 \<and>
     PortfolioManager_executeRebalance pm 200 3000 11 ''Compound'' ''Curve'' 900 0 = Inr pm2 \<and>
     totalValue (portfolios pm2 11) = totalValue (portfolios pm 11) \<and>
     withdrawFunds pm 11 (10 ^ 16 + 301) True = Inl (Revert ''Insufficient balance'')"
proof -
  let ?cs = "[(1000, CreatePortfolio 11 (10 ^ 16) 1),
            (1000, AuthorizeRebalancer 100 200 True),
            (1100, DepositFunds 11 500),
            (1200, WithdrawFunds 11 200 True),
            (2000, ExecuteRebalance 200 11 ''Aave'' ''Compound'' 780 0)]"
  obtain pm where run: "pm_run (PortfolioManager_init 100) ?cs = Inr pm"
    and tv: "totalValue (portfolios pm 11) = 10 ^ 16 + 300"
    and np: "\<not> pm_paused pm"
    and rest: "\<exists>pm2. PortfolioManager_executeRebalance pm 200 3000 11 ''Compound'' ''Curve'' 900 0
                 = Inr pm2"
    by (simp add: arith_defs pm_defs)
  from rest obtain pm2 where
    reb: "PortfolioManager_executeRebalance pm 200 3000 11 ''Compound'' ''Curve'' 900 0 = Inr pm2"
    by blast
  have sums: "total_initial 11 ?cs = 10 ^ 16" "total_deposited 11 ?cs = 500"
    "total_withdrawn 11 ?cs = 200"
    by (simp_all add: total_initial_def total_deposited_def total_withdrawn_def)
  have big: "10 ^ 16 + 301 > totalValue (portfolios pm 11)" using tv by simp
  note t = totalValue_is_deposits_minus_withdrawals
         [where deployer = 100 and cs = ?cs and pm = pm and u = 11 and ?pm1.0 = pm
            and sender = 200 and now = 3000 and usr = 11 and fromP = "''Compound''"
            and toP = "''Curve''" and y = 900 and g = 0 and ?pm2.0 = pm2 and v = 11
            and amt = "10 ^ 16 + 301" and s = 11 and ok = True]
  from t run have "int (totalValue (portfolios pm 11)) =
      int (total_initial 11 ?cs) + int (total_deposited 11 ?cs) - int (total_withdrawn 11 ?cs)"
    by blast
  then have eq: "int (totalValue (portfolios pm 11)) = int (10 ^ 16) + 500 - 200"
    by (simp only: sums)
  from t reb have same: "totalValue (portfolios pm2 11) = totalValue (portfolios pm 11)"
    by blast
  from t big have "withdrawFunds pm 11 (10 ^ 16 + 301) True =
      Inl (Revert (if pm_paused pm then ''Pausable: paused'' else ''Insufficient balance''))"
    by blast
  with np have wd: "withdrawFunds pm 11 (10 ^ 16 + 301) True =
      Inl (Revert ''Insufficient balance'')"
    by simp
  from run eq reb same wd show ?thesis by blast
qed

lemma emptied_portfolio:
  assumes "totalValue (portfolios pm u) = 0" and "\<not> pm_paused pm"
  shows "depositFunds pm u d = Inl (Revert ''Portfolio does not exist'')"
    and "np \<le> 2 \<Longrightarrow> updateRiskProfile pm u np = Inl (Revert ''Portfolio does not exist'')"
    and "toggleAutoRebalance pm u = Inl (Revert ''Portfolio does not exist'')"
    and "v \<ge> MIN_DEPOSIT \<Longrightarrow> RiskProfile_of_uint8 rp = Inr profile \<Longrightarrow>
         createPortfolio pm u v now rp =
           Inr (pm\<lparr>portfolios := (portfolios pm)(u :=
                   \<lparr>totalValue = v, currentYield = 320, currentProtocol = ''Aave'',
                    riskProfile = profile, autoRebalanceEnabled = True,
                    lastRebalance = now, totalProfit = 0\<rparr>),
                 pm_events := pm_events pm @ [PortfolioCreated u v profile]\<rparr>)"
  using assms
  by (auto simp: depositFunds_def updateRiskProfile_def toggleAutoRebalance_def
      createPortfolio_def require_def split: if_splits)

lemma withdrawFunds_Inr:
  assumes "withdrawFunds pm u amt ok = Inr pm'"
  shows "\<not> pm_paused pm'" and "totalValue (portfolios pm' u) = totalValue (portfolios pm u) - amt"
    and "amt \<le> totalValue (portfolios pm u)"
  using assms by (auto simp: withdrawFunds_def Inr_iffs)

text \<open>
  C10. Once withdrawals have brought an owner's totalValue down to exactly 0, the
  portfolio is treated as nonexistent: depositFunds, updateRiskProfile (with a valid
  profile) and toggleAutoRebalance fail with "Portfolio does not exist", and
  createPortfolio (with the minimum deposit and a valid profile) succeeds again and
  writes the initial venue Aave, the initial yield 320, the given risk profile,
  auto-rebalance on and a profit of 0.
\<close>

theorem withdrawn_to_zero_is_nonexistent:
  assumes "withdrawFunds pm0 u amt ok = Inr pm" and "totalValue (portfolios pm u) = 0"
  shows "depositFunds pm u d = Inl (Revert ''Portfolio does not exist'') \<and>
         (np \<le> 2 \<longrightarrow> updateRiskProfile pm u np = Inl (Revert ''Portfolio does not exist'')) \<and>
         toggleAutoRebalance pm u = Inl (Revert ''Portfolio does not exist'') \<and>
         (v \<ge> MIN_DEPOSIT \<and> RiskProfile_of_uint8 rp = Inr profile \<longrightarrow>
            createPortfolio pm u v now rp =
              Inr (pm\<lparr>portfolios := (portfolios pm)(u :=
                      \<lparr>totalValue = v, currentYield = 320, currentProtocol = ''Aave'',
                       riskProfile = profile, autoRebalanceEnabled = True,
                       lastRebalance = now, totalProfit = 0\<rparr>),
                    pm_events := pm_events pm @ [PortfolioCreated u v profile]\<rparr>))"
  using emptied_portfolio[OF assms(2) withdrawFunds_Inr(1)[OF assms(1)]] by blast

theorem withdrawn_to_zero_is_nonexistent_witness:
  "\<exists>pm0 pm pm'. pm_run (PortfolioManager_init 100)
           [(1000, CreatePortfolio 11 (10 ^ 16) 2),
            (1000, AuthorizeRebalancer 100 200 True),
            (2000, ExecuteRebalance 200 11 ''Aave'' ''Compound'' 780 0),
            (2100, ToggleAutoRebalance 11)] = Inr pm0 \<and>
     portfolios pm0 11 = \<lparr>totalValue = 10 ^ 16, currentYield = 780,
        currentProtocol = ''Compound'', riskProfile = AGGRESSIVE,
        autoRebalanceEnabled = False, lastRebalance = 2000, totalProfit = 0\<rparr> \<and>
     withdrawFunds pm0 11 (10 ^ 16) True = Inr pm \<and>
     totalValue (portfolios pm 11) = 0 \<and>
     depositFunds pm 11 5 = Inl (Revert ''Portfolio does not exist'') \<and>
     updateRiskProfile pm 11 1 = Inl (Revert ''Portfolio does not exist'') \<and>
     toggleAutoRebalance pm 11 = Inl (Revert ''Portfolio does not exist'') \<and>
     createPortfolio pm 11 (2 * 10 ^ 16) 3000 0 = Inr pm' \<and>
     portfolios pm' 11 = \<lparr>totalValue = 2 * 10 ^ 16, currentYield = 320,
        currentProtocol = ''Aave'', riskProfile = CONSERVATIVE,
        autoRebalanceEnabled = True, lastRebalance = 3000, totalProfit = 0\<rparr>"
proof -
  obtain pm0 where run: "pm_run (PortfolioManager_init 100)
           [(1000, CreatePortfolio 11 (10 ^ 16) 2),
            (1000, AuthorizeRebalancer 100 200 True),
            (2000, ExecuteRebalance 200 11 ''Aave'' ''Compound'' 780 0),
            (2100, ToggleAutoRebalance 11)] = Inr pm0"
    and p0: "portfolios pm0 11 = \<lparr>totalValue = 10 ^ 16, currentYield = 780,
        currentProtocol = ''Compound'', riskProfile = AGGRESSIVE,
        autoRebalanceEnabled = False, lastRebalance = 2000, totalProfit = 0\<rparr>"
    and "\<not> pm_paused pm0"
    by (simp add: arith_defs pm_defs)
  then obtain pm where w: "withdrawFunds pm0 11 (10 ^ 16) True = Inr pm"
    and z: "totalValue (portfolios pm 11) = 0"
    by (simp add: withdrawFunds_def arith_defs)
  have m: "(2 * 10 ^ 16 :: nat) \<ge> MIN_DEPOSIT" by (simp add: MIN_DEPOSIT_def)
  have r: "RiskProfile_of_uint8 0 = Inr CONSERVATIVE" by simp
  note t = withdrawn_to_zero_is_nonexistent[OF w z, where d = 5 and np = 1
            and v = "2 * 10 ^ 16" and rp = 0 and profile = CONSERVATIVE and now = 3000]
  from t have d: "depositFunds pm 11 5 = Inl (Revert ''Portfolio does not exist'')"
    and g: "toggleAutoRebalance pm 11 = Inl (Revert ''Portfolio does not exist'')"
    by blast+
  from t have u: "updateRiskProfile pm 11 1 = Inl (Revert ''Portfolio does not exist'')"
    by simp
  from t m r have c: "createPortfolio pm 11 (2 * 10 ^ 16) 3000 0 =
      Inr (pm\<lparr>portfolios := (portfolios pm)(11 :=
              \<lparr>totalValue = 2 * 10 ^ 16, currentYield = 320, currentProtocol = ''Aave'',
               riskProfile = CONSERVATIVE, autoRebalanceEnabled = True,
               lastRebalance = 3000, totalProfit = 0\<rparr>),
            pm_events := pm_events pm @ [PortfolioCreated 11 (2 * 10 ^ 16) CONSERVATIVE]\<rparr>)"
    by blast
  have p': "portfolios (pm\<lparr>portfolios := (portfolios pm)(11 :=
              \<lparr>totalValue = 2 * 10 ^ 16, currentYield = 320, currentProtocol = ''Aave'',
               riskProfile = CONSERVATIVE, autoRebalanceEnabled = True,
               lastRebalance = 3000, totalProfit = 0\<rparr>),
            pm_events := pm_events pm @ [PortfolioCreated 11 (2 * 10 ^ 16) CONSERVATIVE]\<rparr>) 11 =
        \<lparr>totalValue = 2 * 10 ^ 16, currentYield = 320,
        currentProtocol = ''Aave'', riskProfile = CONSERVATIVE,
        autoRebalanceEnabled = True, lastRebalance = 3000, totalProfit = 0\<rparr>"
    by simp
  from run p0 w z d u g c p' show ?thesis by blast
qed


section \<open>RebalancingEngine: the risk ceiling\<close>

text \<open>
  C6. The claim: batchOptimize maps Conservative to the ceiling 3, Balanced to 5,
  Aggressive to 8. The code does not: batchOptimization passes \<^verbatim>\<open>uint8(riskProfile)\<close>,
  which is 0, 1, 2 for the three profiles of the enum, to a function that tests for 1, 2
  and 3. Conservative gets the default 5, Balanced gets 3 and Aggressive gets 5.
\<close>

theorem mapRiskProfile_of_enum:
  "mapRiskProfile (uint8_of_RiskProfile CONSERVATIVE) = 5 \<and>
   mapRiskProfile (uint8_of_RiskProfile BALANCED) = 3 \<and>
   mapRiskProfile (uint8_of_RiskProfile AGGRESSIVE) = 5"
  by (simp add: mapRiskProfile_def)

section \<open>YieldOracle: the best venue, the history\<close>

lemma getBestYieldForRisk_loop_Cons:
  assumes "timestamp (protocolYields yo x) \<le> now"
  shows "getBestYieldForRisk_loop yo now mr mt (x # xs) (h0, t0, r0) =
     (if eligible yo now mr mt x \<and> apy (protocolYields yo x) > h0
      then getBestYieldForRisk_loop yo now mr mt xs
             (apy (protocolYields yo x), x, riskScore (protocolYields yo x))
      else getBestYieldForRisk_loop yo now mr mt xs (h0, t0, r0))"
  using assms
  by (auto simp: eligible_def isStaleData_def checked_sub_def Let_def)

text \<open>
  The loop invariant, as a statement about the rest of the list: the loop returns; the
  yield it returns bounds the accumulator's and that of every eligible venue it saw; and
  either the accumulator comes back unchanged, or the result is an eligible venue of the
  list, strictly better than the accumulator and than every eligible venue before it.
\<close>

lemma getBestYieldForRisk_loop_result:
  assumes "\<forall>n\<in>set xs. timestamp (protocolYields yo n) \<le> now"
  shows "\<exists>h t r. getBestYieldForRisk_loop yo now mr mt xs (h0, t0, r0) = Inr (h, t, r) \<and> h0 \<le> h \<and>
     (\<forall>n\<in>set xs. eligible yo now mr mt n \<longrightarrow> apy (protocolYields yo n) \<le> h) \<and>
     ((h, t, r) = (h0, t0, r0) \<or>
      (h0 < h \<and> (\<exists>i<length xs. xs ! i = t \<and> eligible yo now mr mt t \<and>
          h = apy (protocolYields yo t) \<and> r = riskScore (protocolYields yo t) \<and>
          (\<forall>j<i. eligible yo now mr mt (xs ! j) \<longrightarrow> apy (protocolYields yo (xs ! j)) < h))))"
  using assms
proof (induction xs arbitrary: h0 t0 r0)
  case Nil
  then show ?case by simp
next
  case (Cons x xs)
  let ?a = "apy (protocolYields yo x)"
  let ?rs = "riskScore (protocolYields yo x)"
  from Cons.prems have tx: "timestamp (protocolYields yo x) \<le> now"
    and txs: "\<forall>n\<in>set xs. timestamp (protocolYields yo n) \<le> now" by simp_all
  show ?case
  proof (cases "eligible yo now mr mt x \<and> ?a > h0")
    case True
    from Cons.IH[OF txs, of ?a x ?rs] obtain h t r where
      run: "getBestYieldForRisk_loop yo now mr mt xs (?a, x, ?rs) = Inr (h, t, r)"
      and le: "?a \<le> h"
      and ub: "\<forall>n\<in>set xs. eligible yo now mr mt n \<longrightarrow> apy (protocolYields yo n) \<le> h"
      and alt: "(h, t, r) = (?a, x, ?rs) \<or>
        (?a < h \<and> (\<exists>i<length xs. xs ! i = t \<and> eligible yo now mr mt t \<and>
          h = apy (protocolYields yo t) \<and> r = riskScore (protocolYields yo t) \<and>
          (\<forall>j<i. eligible yo now mr mt (xs ! j) \<longrightarrow> apy (protocolYields yo (xs ! j)) < h)))"
      by blast
    have res: "getBestYieldForRisk_loop yo now mr mt (x # xs) (h0, t0, r0) = Inr (h, t, r)"
      using True run
      by (simp add: getBestYieldForRisk_loop_Cons[OF tx] del: getBestYieldForRisk_loop.simps)
    have lt: "h0 < h" using True le by simp
    have ub': "\<forall>n\<in>set (x # xs). eligible yo now mr mt n \<longrightarrow> apy (protocolYields yo n) \<le> h"
      using ub le by simp
    have "\<exists>i<length (x # xs). (x # xs) ! i = t \<and> eligible yo now mr mt t \<and>
          h = apy (protocolYields yo t) \<and> r = riskScore (protocolYields yo t) \<and>
          (\<forall>j<i. eligible yo now mr mt ((x # xs) ! j) \<longrightarrow>
             apy (protocolYields yo ((x # xs) ! j)) < h)"
      using alt
    proof
      assume "(h, t, r) = (?a, x, ?rs)"
      with True show ?thesis by (intro exI[of _ 0]) simp
    next
      assume "?a < h \<and> (\<exists>i<length xs. xs ! i = t \<and> eligible yo now mr mt t \<and>
          h = apy (protocolYields yo t) \<and> r = riskScore (protocolYields yo t) \<and>
          (\<forall>j<i. eligible yo now mr mt (xs ! j) \<longrightarrow> apy (protocolYields yo (xs ! j)) < h))"
      then obtain i where a: "?a < h"
        and i: "i < length xs" "xs ! i = t" "eligible yo now mr mt t"
          "h = apy (protocolYields yo t)" "r = riskScore (protocolYields yo t)"
        and before: "\<forall>j<i. eligible yo now mr mt (xs ! j) \<longrightarrow>
                       apy (protocolYields yo (xs ! j)) < h"
        by blast
      have "\<forall>j<Suc i. eligible yo now mr mt ((x # xs) ! j) \<longrightarrow>
              apy (protocolYields yo ((x # xs) ! j)) < h"
        using a before by (auto simp: less_Suc_eq_0_disj)
      with i show ?thesis by (intro exI[of _ "Suc i"]) simp
    qed
    moreover have "h0 \<le> h" using lt by simp
    ultimately show ?thesis using res lt ub' by blast
  next
    case False
    from Cons.IH[OF txs, of h0 t0 r0] obtain h t r where
      run: "getBestYieldForRisk_loop yo now mr mt xs (h0, t0, r0) = Inr (h, t, r)"
      and le: "h0 \<le> h"
      and ub: "\<forall>n\<in>set xs. eligible yo now mr mt n \<longrightarrow> apy (protocolYields yo n) \<le> h"
      and alt: "(h, t, r) = (h0, t0, r0) \<or>
        (h0 < h \<and> (\<exists>i<length xs. xs ! i = t \<and> eligible yo now mr mt t \<and>
          h = apy (protocolYields yo t) \<and> r = riskScore (protocolYields yo t) \<and>
          (\<forall>j<i. eligible yo now mr mt (xs ! j) \<longrightarrow> apy (protocolYields yo (xs ! j)) < h)))"
      by blast
    have res: "getBestYieldForRisk_loop yo now mr mt (x # xs) (h0, t0, r0) = Inr (h, t, r)"
      using False run
      by (auto simp: getBestYieldForRisk_loop_Cons[OF tx]
          simp del: getBestYieldForRisk_loop.simps)
    have xle: "eligible yo now mr mt x \<longrightarrow> ?a \<le> h0" using False by auto
    have ub': "\<forall>n\<in>set (x # xs). eligible yo now mr mt n \<longrightarrow> apy (protocolYields yo n) \<le> h"
      using ub le xle by auto
    have "(h, t, r) = (h0, t0, r0) \<or>
       (h0 < h \<and> (\<exists>i<length (x # xs). (x # xs) ! i = t \<and> eligible yo now mr mt t \<and>
          h = apy (protocolYields yo t) \<and> r = riskScore (protocolYields yo t) \<and>
          (\<forall>j<i. eligible yo now mr mt ((x # xs) ! j) \<longrightarrow>
             apy (protocolYields yo ((x # xs) ! j)) < h)))"
      using alt
    proof
      assume "(h, t, r) = (h0, t0, r0)"
      then show ?thesis by simp
    next
      assume "h0 < h \<and> (\<exists>i<length xs. xs ! i = t \<and> eligible yo now mr mt t \<and>
          h = apy (protocolYields yo t) \<and> r = riskScore (protocolYields yo t) \<and>
          (\<forall>j<i. eligible yo now mr mt (xs ! j) \<longrightarrow> apy (protocolYields yo (xs ! j)) < h))"
      then obtain i where a: "h0 < h"
        and i: "i < length xs" "xs ! i = t" "eligible yo now mr mt t"
          "h = apy (protocolYields yo t)" "r = riskScore (protocolYields yo t)"
        and before: "\<forall>j<i. eligible yo now mr mt (xs ! j) \<longrightarrow>
                       apy (protocolYields yo (xs ! j)) < h"
        by blast
      have "\<forall>j<Suc i. eligible yo now mr mt ((x # xs) ! j) \<longrightarrow>
              apy (protocolYields yo ((x # xs) ! j)) < h"
        using a before xle by (auto simp: less_Suc_eq_0_disj)
      with i a have "h0 < h \<and> (\<exists>i<length (x # xs). (x # xs) ! i = t \<and>
          eligible yo now mr mt t \<and>
          h = apy (protocolYields yo t) \<and> r = riskScore (protocolYields yo t) \<and>
          (\<forall>j<i. eligible yo now mr mt ((x # xs) ! j) \<longrightarrow>
             apy (protocolYields yo ((x # xs) ! j)) < h))"
        by (intro conjI exI[of _ "Suc i"]) simp_all
      then show ?thesis ..
    qed
    then show ?thesis using res le ub' by blast
  qed
qed

lemma getBestYieldForRisk_result:
  assumes risk: "1 \<le> maxRisk" "maxRisk \<le> 10"
    and ts: "\<forall>n\<in>set (supportedProtocols yo). timestamp (protocolYields yo n) \<le> now"
  shows "\<exists>name y r. getBestYieldForRisk yo now maxRisk minTvl = Inr (name, y, r) \<and>
    (if \<exists>n\<in>set (supportedProtocols yo).
          eligible yo now maxRisk minTvl n \<and> apy (protocolYields yo n) > 0
     then first_best yo now maxRisk minTvl name \<and>
          y = apy (protocolYields yo name) \<and> r = riskScore (protocolYields yo name)
     else name = [] \<and> y = 0 \<and> r = 0)"
proof -
  let ?xs = "supportedProtocols yo"
  from getBestYieldForRisk_loop_result[OF ts, of maxRisk minTvl 0 "[]" 0]
  obtain h t r where
    run: "getBestYieldForRisk_loop yo now maxRisk minTvl ?xs (0, [], 0) = Inr (h, t, r)"
    and ub: "\<forall>n\<in>set ?xs. eligible yo now maxRisk minTvl n \<longrightarrow> apy (protocolYields yo n) \<le> h"
    and alt: "(h, t, r) = (0, [], 0) \<or>
      (0 < h \<and> (\<exists>i<length ?xs. ?xs ! i = t \<and> eligible yo now maxRisk minTvl t \<and>
          h = apy (protocolYields yo t) \<and> r = riskScore (protocolYields yo t) \<and>
          (\<forall>j<i. eligible yo now maxRisk minTvl (?xs ! j) \<longrightarrow>
             apy (protocolYields yo (?xs ! j)) < h)))"
    by blast
  have res: "getBestYieldForRisk yo now maxRisk minTvl = Inr (t, h, r)"
    using risk run by (simp add: getBestYieldForRisk_def require_def)
  show ?thesis
  proof (cases "\<exists>n\<in>set ?xs. eligible yo now maxRisk minTvl n \<and> apy (protocolYields yo n) > 0")
    case True
    then have "0 < h" using ub by force
    with alt obtain i where i: "i < length ?xs" "?xs ! i = t" "eligible yo now maxRisk minTvl t"
      and h: "h = apy (protocolYields yo t)" and r: "r = riskScore (protocolYields yo t)"
      and before: "\<forall>j<i. eligible yo now maxRisk minTvl (?xs ! j) \<longrightarrow>
                     apy (protocolYields yo (?xs ! j)) < h"
      by auto
    have "first_best yo now maxRisk minTvl t"
      unfolding first_best_def using i before ub h by blast
    with res h r True show ?thesis by simp
  next
    case False
    have "(h, t, r) = (0, [], 0)"
    proof (rule ccontr)
      assume "(h, t, r) \<noteq> (0, [], 0)"
      with alt obtain i where "0 < h" "i < length ?xs" "?xs ! i = t"
        "eligible yo now maxRisk minTvl t" "h = apy (protocolYields yo t)"
        by auto
      then have "t \<in> set ?xs \<and> eligible yo now maxRisk minTvl t \<and> apy (protocolYields yo t) > 0"
        using nth_mem by auto
      with False show False by blast
    qed
    with res False show ?thesis by force
  qed
qed

text \<open>
  C7, as stated, fails: the returned record is not always the eligible record of the
  highest apy. After deployment and one update of Aave to an apy of 0 (risk 2, $2.5B),
  Aave is the one eligible venue for maxRisk 5 and minTvl $100M, and the query returns
  "none": the loop starts from \<^verbatim>\<open>highestYield = 0\<close> and takes a venue only when its apy
  is strictly higher.
\<close>

theorem getBestYieldForRisk_zero_apy:
  "bind (YieldOracle_init 100 1000) (\<lambda>yo.
     bind (yo_run yo [(1000, UpdateYield 100 ''Aave'' 0 (2500000000 * 10 ^ 18) 2)]) (\<lambda>yo.
       Inr (getBestYieldForRisk yo 1000 5 (100000000 * 10 ^ 18),
            filter (eligible yo 1000 5 (100000000 * 10 ^ 18)) (supportedProtocols yo)))) =
   Inr (Inr ([], 0, 0), [''Aave''])"
  by (simp add: arith_defs yo_defs eligible_def)

text \<open>
  C7, amended. For 1 <= maxRisk <= 10 (any other maxRisk is rejected with "Invalid risk
  profile"), getBestYieldForRisk(maxRisk, minTvl) returns the record with the highest apy
  among the active, non-stale records with riskScore <= maxRisk and tvl >= minTvl,
  provided that apy is above 0, the first-registered one among equals; a stale record is
  never returned, whatever its apy; and it returns "none" when no such record has an apy
  above 0. Over Aave 320bp/risk 2/$2.5B, Compound 780bp/risk 2/$1.8B, Curve 540bp/risk
  3/$850M and Uniswap 420bp/risk 4/$420M, with maxRisk 5 and minTvl $100M, the result is
  Compound. (Block timestamps do not decrease, so no record is dated after the query.)
\<close>

theorem getBestYieldForRisk_first_best:
  "(maxRisk < 1 \<or> maxRisk > 10 \<longrightarrow>
      getBestYieldForRisk yo now maxRisk minTvl = Inl (Revert ''Invalid risk profile'')) \<and>
   (1 \<le> maxRisk \<and> maxRisk \<le> 10 \<and>
    (\<forall>n\<in>set (supportedProtocols yo). timestamp (protocolYields yo n) \<le> now) \<longrightarrow>
      (\<exists>name y r. getBestYieldForRisk yo now maxRisk minTvl = Inr (name, y, r) \<and>
         (if \<exists>n\<in>set (supportedProtocols yo).
               eligible yo now maxRisk minTvl n \<and> apy (protocolYields yo n) > 0
          then first_best yo now maxRisk minTvl name \<and>
               y = apy (protocolYields yo name) \<and> r = riskScore (protocolYields yo name)
          else name = [] \<and> y = 0 \<and> r = 0))) \<and>
   bind (YieldOracle_init 100 1000) (\<lambda>yo0.
     bind (yo_run yo0
        [(1000, UpdateYield 100 ''Aave'' 320 (2500000000 * 10 ^ 18) 2),
         (1000, UpdateYield 100 ''Compound'' 780 (1800000000 * 10 ^ 18) 2),
         (1000, UpdateYield 100 ''Curve'' 540 (850000000 * 10 ^ 18) 3),
         (1000, UpdateYield 100 ''Uniswap'' 420 (420000000 * 10 ^ 18) 4)]) (\<lambda>yo1.
       getBestYieldForRisk yo1 1000 5 (100000000 * 10 ^ 18))) = Inr (''Compound'', 780, 2)"
proof (intro conjI impI)
  assume "maxRisk < 1 \<or> maxRisk > 10"
  then show "getBestYieldForRisk yo now maxRisk minTvl = Inl (Revert ''Invalid risk profile'')"
    by (auto simp: getBestYieldForRisk_def require_def)
next
  assume "1 \<le> maxRisk \<and> maxRisk \<le> 10 \<and>
    (\<forall>n\<in>set (supportedProtocols yo). timestamp (protocolYields yo n) \<le> now)"
  then show "\<exists>name y r. getBestYieldForRisk yo now maxRisk minTvl = Inr (name, y, r) \<and>
         (if \<exists>n\<in>set (supportedProtocols yo).
               eligible yo now maxRisk minTvl n \<and> apy (protocolYields yo n) > 0
          then first_best yo now maxRisk minTvl name \<and>
               y = apy (protocolYields yo name) \<and> r = riskScore (protocolYields yo name)
          else name = [] \<and> y = 0 \<and> r = 0)"
    using getBestYieldForRisk_result by blast
next
  show "bind (YieldOracle_init 100 1000) (\<lambda>yo0.
     bind (yo_run yo0
        [(1000, UpdateYield 100 ''Aave'' 320 (2500000000 * 10 ^ 18) 2),
         (1000, UpdateYield 100 ''Compound'' 780 (1800000000 * 10 ^ 18) 2),
         (1000, UpdateYield 100 ''Curve'' 540 (850000000 * 10 ^ 18) 3),
         (1000, UpdateYield 100 ''Uniswap'' 420 (420000000 * 10 ^ 18) 4)]) (\<lambda>yo1.
       getBestYieldForRisk yo1 1000 5 (100000000 * 10 ^ 18))) = Inr (''Compound'', 780, 2)"
    by (simp add: arith_defs yo_defs)
qed

text \<open>
  The witness: the four venues of the example, and a fifth, Lido, updated an hour and a
  second before the query to the highest apy of all. The stale Lido is passed over.
\<close>

theorem getBestYieldForRisk_first_best_witness:
  "\<exists>yo. bind (YieldOracle_init 100 1000) (\<lambda>yo0. yo_run yo0
        [(1000, UpdateYield 100 ''Lido'' 900 (3000000000 * 10 ^ 18) 2),
         (4000, UpdateYield 100 ''Aave'' 320 (2500000000 * 10 ^ 18) 2),
         (4000, UpdateYield 100 ''Compound'' 780 (1800000000 * 10 ^ 18) 2),
         (4000, UpdateYield 100 ''Curve'' 540 (850000000 * 10 ^ 18) 3),
         (4000, UpdateYield 100 ''Uniswap'' 420 (420000000 * 10 ^ 18) 4)]) = Inr yo \<and>
     apy (protocolYields yo ''Lido'') = 900 \<and>
     getBestYieldForRisk yo 4601 5 (100000000 * 10 ^ 18) = Inr (''Compound'', 780, 2) \<and>
     first_best yo 4601 5 (100000000 * 10 ^ 18) ''Compound'' \<and>
     getBestYieldForRisk yo 4601 11 (100000000 * 10 ^ 18) = Inl (Revert ''Invalid risk profile'')"
proof -
  obtain yo where run: "bind (YieldOracle_init 100 1000) (\<lambda>yo0. yo_run yo0
        [(1000, UpdateYield 100 ''Lido'' 900 (3000000000 * 10 ^ 18) 2),
         (4000, UpdateYield 100 ''Aave'' 320 (2500000000 * 10 ^ 18) 2),
         (4000, UpdateYield 100 ''Compound'' 780 (1800000000 * 10 ^ 18) 2),
         (4000, UpdateYield 100 ''Curve'' 540 (850000000 * 10 ^ 18) 3),
         (4000, UpdateYield 100 ''Uniswap'' 420 (420000000 * 10 ^ 18) 4)]) = Inr yo"
    and lido: "apy (protocolYields yo ''Lido'') = 900"
    and ts: "\<forall>n\<in>set (supportedProtocols yo). timestamp (protocolYields yo n) \<le> 4601"
    and some: "\<exists>n\<in>set (supportedProtocols yo).
          eligible yo 4601 5 (100000000 * 10 ^ 18) n \<and> apy (protocolYields yo n) > 0"
    and best: "getBestYieldForRisk yo 4601 5 (100000000 * 10 ^ 18) = Inr (''Compound'', 780, 2)"
    by (simp add: arith_defs yo_defs eligible_def)
  note t1 = getBestYieldForRisk_first_best
    [where maxRisk = 5 and yo = yo and now = 4601 and minTvl = "100000000 * 10 ^ 18"]
  note t2 = getBestYieldForRisk_first_best
    [where maxRisk = 11 and yo = yo and now = 4601 and minTvl = "100000000 * 10 ^ 18"]
  from t1 ts some best have fb: "first_best yo 4601 5 (100000000 * 10 ^ 18) ''Compound''"
    by auto
  from t2 have rej: "getBestYieldForRisk yo 4601 11 (100000000 * 10 ^ 18) =
      Inl (Revert ''Invalid risk profile'')"
    by simp
  from run lido best fb rej show ?thesis by blast
qed


lemma updateYield_Inr:
  assumes "updateYield yo sender now name a t r = Inr yo'"
  shows "yieldHistory yo' = (yieldHistory yo)(name := yieldHistory yo name @
           [\<lparr>hist_apy = apy (protocolYields yo name),
             hist_timestamp = timestamp (protocolYields yo name)\<rparr>])"
    and "active (protocolYields yo' name)" and "\<not> yo_paused yo'"
    and "yo_owner yo' = yo_owner yo" and "authorizedUpdaters yo' = authorizedUpdaters yo"
  using assms by (auto simp: updateYield_def Inr_iffs Let_def)

lemma yo_step_history_length:
  assumes "yo_step yo now c = Inr yo'"
  shows "length (yieldHistory yo' name) = length (yieldHistory yo name) + updates_of name [(now, c)]"
proof (cases c)
  case (UpdateYield sender n a t r)
  with assms show ?thesis by (simp add: updateYield_Inr(1))
qed (use assms in \<open>auto simp: addProtocol_def addProtocol_internal_def deactivateProtocol_def
      authorizeUpdater_def Inr_iffs\<close>)

lemma updates_of_Cons:
  "updates_of name ((now, c) # cs) = updates_of name [(now, c)] + updates_of name cs"
  by (cases c) simp_all

lemma yo_run_history_length:
  "yo_run yo cs = Inr yo' \<Longrightarrow>
   length (yieldHistory yo' name) = length (yieldHistory yo name) + updates_of name cs"
proof (induction cs arbitrary: yo)
  case Nil
  then show ?case by simp
next
  case (Cons a cs)
  obtain now c where a: "a = (now, c)" by (cases a)
  from Cons.prems a obtain yo1
    where s: "yo_step yo now c = Inr yo1" and r: "yo_run yo1 cs = Inr yo'"
    by (auto simp: bind_Inr_iff)
  from Cons.IH[OF r] yo_step_history_length[OF s, of name] a show ?case
    by (simp add: updates_of_Cons[of name now c cs])
qed

lemma map_most_recent_first:
  "map (\<lambda>i. f (h ! (length h - 1 - i))) [0..<(if length h > limit then limit else length h)] =
   map f (take limit (rev h))"
  by (rule nth_equalityI) (auto simp: rev_nth split: if_splits)

lemma getYieldHistory_rev:
  "getYieldHistory yo name limit =
     (map hist_apy (take limit (rev (yieldHistory yo name))),
      map hist_timestamp (take limit (rev (yieldHistory yo name))))"
  by (simp only: getYieldHistory_def Let_def map_most_recent_first)

text \<open>Repeating one update: each one succeeds, so the run never stops.\<close>

lemma yo_run_replicate_updateYield:
  assumes "active (protocolYields yo name)" and "\<not> yo_paused yo" and "sender = yo_owner yo"
    and "1 \<le> r" "r \<le> 10" "a \<le> 50000" "t \<ge> MIN_TVL_THRESHOLD"
  shows "\<exists>yo'. yo_run yo (replicate n (now, UpdateYield sender name a t r)) = Inr yo'"
  using assms(1-3)
proof (induction n arbitrary: yo)
  case 0
  then show ?case by simp
next
  case (Suc n)
  from Suc.prems assms(4-7) obtain yo1 where u: "updateYield yo sender now name a t r = Inr yo1"
    by (simp add: updateYield_def require_def Let_def)
  from updateYield_Inr[OF u] Suc.prems
  have "active (protocolYields yo1 name)" "\<not> yo_paused yo1" "sender = yo_owner yo1"
    by simp_all
  from Suc.IH[OF this] u show ?case by simp
qed

lemma updates_of_replicate:
  "updates_of name (replicate n (now, UpdateYield sender name a t r)) = n"
  by (induction n) simp_all

text \<open>
  C9, as stated, fails: the history has no bound. For every bound there is a sequence of
  updateYield calls, from deployment, after which the history of Aave is longer.
\<close>

theorem yieldHistory_has_no_bound:
  "\<not> (\<exists>bound. \<forall>yo cs yo'.
        YieldOracle_init 100 1000 = Inr yo \<and> yo_run yo cs = Inr yo' \<longrightarrow>
        length (yieldHistory yo' ''Aave'') \<le> bound)"
proof
  assume "\<exists>bound. \<forall>yo cs yo'.
        YieldOracle_init 100 1000 = Inr yo \<and> yo_run yo cs = Inr yo' \<longrightarrow>
        length (yieldHistory yo' ''Aave'') \<le> bound"
  then obtain bound where b: "\<And>yo cs yo'.
        YieldOracle_init 100 1000 = Inr yo \<Longrightarrow> yo_run yo cs = Inr yo' \<Longrightarrow>
        length (yieldHistory yo' ''Aave'') \<le> bound"
    by blast
  obtain yo where init: "YieldOracle_init 100 1000 = Inr yo"
    and st: "active (protocolYields yo ''Aave'')" "\<not> yo_paused yo" "100 = yo_owner yo"
    by (simp add: arith_defs yo_defs)
  let ?cs = "replicate (Suc bound)
               (2000, UpdateYield 100 ''Aave'' 320 (2500000000 * 10 ^ 18) 2)"
  have "\<exists>yo'. yo_run yo ?cs = Inr yo'"
    by (rule yo_run_replicate_updateYield[OF st]) (simp_all add: MIN_TVL_THRESHOLD_def)
  then obtain yo' where run: "yo_run yo ?cs = Inr yo'" by blast
  from yo_run_history_length[OF run, of "''Aave''"]
  have "length (yieldHistory yo' ''Aave'') \<ge> Suc bound"
    by (simp only: updates_of_replicate)
  with b[OF init run] show False by simp
qed

text \<open>
  C9, amended. For every venue, each successful updateYield archives the previous record
  (its apy and its timestamp) by appending it to the venue's history, and the histories
  of the other venues stay as they are; nothing is ever evicted, so after any sequence of
  successful calls the history is longer by exactly the number of updateYield calls for
  that venue; getYieldHistory reads the history most-recent-first, at most \<open>limit\<close>
  entries of it.
\<close>

theorem updateYield_appends_to_history:
  "(updateYield yo sender now name a t r = Inr yo' \<longrightarrow>
      yieldHistory yo' name = yieldHistory yo name @
        [\<lparr>hist_apy = apy (protocolYields yo name),
          hist_timestamp = timestamp (protocolYields yo name)\<rparr>] \<and>
      (\<forall>other. other \<noteq> name \<longrightarrow> yieldHistory yo' other = yieldHistory yo other)) \<and>
   (yo_run yo cs = Inr yo'' \<longrightarrow>
      length (yieldHistory yo'' name) = length (yieldHistory yo name) + updates_of name cs) \<and>
   getYieldHistory yo name limit =
     (map hist_apy (take limit (rev (yieldHistory yo name))),
      map hist_timestamp (take limit (rev (yieldHistory yo name))))"
  using updateYield_Inr(1)[of yo sender now name a t r yo']
    yo_run_history_length[of yo cs yo'' name] getYieldHistory_rev[of yo name limit]
  by simp

theorem updateYield_appends_to_history_witness:
  "\<exists>yo yo' yo''. YieldOracle_init 100 1000 = Inr yo \<and>
     updateYield yo 100 2000 ''Aave'' 320 (2500000000 * 10 ^ 18) 2 = Inr yo' \<and>
     yieldHistory yo' ''Aave'' = [\<lparr>hist_apy = 0, hist_timestamp = 1000\<rparr>] \<and>
     yo_run yo' [(3000, UpdateYield 100 ''Aave'' 350 (2500000000 * 10 ^ 18) 2),
                 (3000, UpdateYield 100 ''Curve'' 540 (850000000 * 10 ^ 18) 3),
                 (4000, UpdateYield 100 ''Aave'' 400 (2500000000 * 10 ^ 18) 2)] = Inr yo'' \<and>
     length (yieldHistory yo'' ''Aave'') = 3 \<and>
     getYieldHistory yo'' ''Aave'' 2 = ([350, 320], [3000, 2000])"
proof -
  let ?cs = "[(3000, UpdateYield 100 ''Aave'' 350 (2500000000 * 10 ^ 18) 2),
              (3000, UpdateYield 100 ''Curve'' 540 (850000000 * 10 ^ 18) 3),
              (4000, UpdateYield 100 ''Aave'' 400 (2500000000 * 10 ^ 18) 2)]"
  obtain yo where init: "YieldOracle_init 100 1000 = Inr yo"
    and old: "apy (protocolYields yo ''Aave'') = 0" "timestamp (protocolYields yo ''Aave'') = 1000"
      "yieldHistory yo ''Aave'' = []"
    and rest: "\<exists>yo'. updateYield yo 100 2000 ''Aave'' 320 (2500000000 * 10 ^ 18) 2 = Inr yo' \<and>
       (\<exists>yo''. yo_run yo' ?cs = Inr yo'' \<and>
          yieldHistory yo'' ''Aave'' = [\<lparr>hist_apy = 0, hist_timestamp = 1000\<rparr>,
             \<lparr>hist_apy = 320, hist_timestamp = 2000\<rparr>, \<lparr>hist_apy = 350, hist_timestamp = 3000\<rparr>])"
    by (simp add: arith_defs yo_defs)
  from rest obtain yo' yo'' where
    u: "updateYield yo 100 2000 ''Aave'' 320 (2500000000 * 10 ^ 18) 2 = Inr yo'"
    and run: "yo_run yo' ?cs = Inr yo''"
    and h'': "yieldHistory yo'' ''Aave'' = [\<lparr>hist_apy = 0, hist_timestamp = 1000\<rparr>,
             \<lparr>hist_apy = 320, hist_timestamp = 2000\<rparr>, \<lparr>hist_apy = 350, hist_timestamp = 3000\<rparr>]"
    by blast
  note t1 = updateYield_appends_to_history
    [where yo = yo and sender = 100 and now = 2000 and name = "''Aave''" and a = 320
       and t = "2500000000 * 10 ^ 18" and r = 2 and yo' = yo' and cs = "[]" and yo'' = yo
       and limit = 0]
  note t2 = updateYield_appends_to_history
    [where yo = yo' and sender = 100 and now = 2000 and name = "''Aave''" and a = 320
       and t = "2500000000 * 10 ^ 18" and r = 2 and yo' = yo' and cs = ?cs and yo'' = yo''
       and limit = 0]
  note t3 = updateYield_appends_to_history
    [where yo = yo'' and sender = 100 and now = 2000 and name = "''Aave''" and a = 320
       and t = "2500000000 * 10 ^ 18" and r = 2 and yo' = yo' and cs = "[]" and yo'' = yo''
       and limit = 2]
  from t1 u have "yieldHistory yo' ''Aave'' = yieldHistory yo ''Aave'' @
        [\<lparr>hist_apy = apy (protocolYields yo ''Aave''),
          hist_timestamp = timestamp (protocolYields yo ''Aave'')\<rparr>]"
    by blast
  then have h': "yieldHistory yo' ''Aave'' = [\<lparr>hist_apy = 0, hist_timestamp = 1000\<rparr>]"
    by (simp only: old) simp
  from t2 run have "length (yieldHistory yo'' ''Aave'') =
      length (yieldHistory yo' ''Aave'') + updates_of ''Aave'' ?cs"
    by blast
  then have len: "length (yieldHistory yo'' ''Aave'') = 3"
    by (simp add: h')
  from t3 have "getYieldHistory yo'' ''Aave'' 2 =
     (map hist_apy (take 2 (rev (yieldHistory yo'' ''Aave''))),
      map hist_timestamp (take 2 (rev (yieldHistory yo'' ''Aave''))))"
    by blast
  then have g: "getYieldHistory yo'' ''Aave'' 2 = ([350, 320], [3000, 2000])"
    by (simp add: h'')
  from init u h' run len g show ?thesis by blast
qed


section \<open>RebalancingEngine: admission and execution\<close>

lemma requestRebalance_cooldown_rejects:
  assumes "userRebalanceHistory (engine w) usr \<noteq> []"
    and "now < req_timestamp (rebalanceRequests (engine w)
                 (last (userRebalanceHistory (engine w) usr))) + REBALANCE_COOLDOWN"
  shows "\<exists>e. requestRebalance w sender now usr fromP toP y g = Inl e"
proof (cases "requestRebalance w sender now usr fromP toP y g")
  case (Inl e)
  then show ?thesis by blast
next
  case (Inr res)
  with assms have False
    by (auto simp: requestRebalance_def getPortfolio_def Let_def Inr_iffs
        split: list.splits)
  then show ?thesis ..
qed

lemma requestRebalance_cooldown_error:
  assumes "userRebalanceHistory (engine w) usr \<noteq> []"
    and "now < req_timestamp (rebalanceRequests (engine w)
                 (last (userRebalanceHistory (engine w) usr))) + REBALANCE_COOLDOWN"
    and "req_timestamp (rebalanceRequests (engine w)
                 (last (userRebalanceHistory (engine w) usr))) \<le> now"
    and "admitted_before_cooldown w sender usr fromP toP y g"
  shows "requestRebalance w sender now usr fromP toP y g = Inl (Revert ''Cooldown period active'')"
  using assms
  by (auto simp: requestRebalance_def admitted_before_cooldown_def getPortfolio_def Let_def
      onlyAuthorizedAI_def require_def checked_sub_def split: list.splits)

lemma isProfitableRebalance_no_Revert:
  "isProfitableRebalance usr c n g v \<noteq> Inl (Revert msg)"
  by (simp add: isProfitableRebalance_def checked_add_def checked_sub_def checked_mul_def
      checked_div_def)

lemma requestRebalance_first_request:
  assumes "userRebalanceHistory (engine w) usr = []"
  shows "requestRebalance w sender now usr fromP toP y g \<noteq> Inl (Revert ''Cooldown period active'')"
    and "admitted_before_cooldown w sender usr fromP toP y g \<Longrightarrow>
         requestCounter (engine w) < MAX_UINT256 \<Longrightarrow>
         \<exists>w'. requestRebalance w sender now usr fromP toP y g = Inr (w', requestCounter (engine w))"
proof -
  show "requestRebalance w sender now usr fromP toP y g \<noteq> Inl (Revert ''Cooldown period active'')"
    using assms
    by (cases "isProfitableRebalance usr (currentYield (portfolios (portfolioManager w) usr)) y g
                 (totalValue (portfolios (portfolioManager w) usr))")
      (auto simp: requestRebalance_def getPortfolio_def Let_def onlyAuthorizedAI_def
        require_def checked_add_def isProfitableRebalance_no_Revert)
next
  assume "admitted_before_cooldown w sender usr fromP toP y g"
    and "requestCounter (engine w) < MAX_UINT256"
  with assms
  show "\<exists>w'. requestRebalance w sender now usr fromP toP y g = Inr (w', requestCounter (engine w))"
    by (auto simp: requestRebalance_def admitted_before_cooldown_def getPortfolio_def Let_def
        onlyAuthorizedAI_def require_def checked_add_def)
qed

text \<open>
  C8. For every user with a recorded request, requestRebalance rejects whenever less than
  REBALANCE_COOLDOWN has passed since the user's most recent recorded request, whatever
  became of that request (nothing is assumed of its \<open>executed\<close> and \<open>cancelled\<close> flags);
  when the other admission checks pass, the rejection is "Cooldown period active". A user
  with no recorded request is never rejected for the cooldown, and is admitted at any
  time when the other admission checks pass.
\<close>

theorem requestRebalance_cooldown:
  "(userRebalanceHistory (engine w) usr \<noteq> [] \<and>
    now < req_timestamp (rebalanceRequests (engine w)
            (last (userRebalanceHistory (engine w) usr))) + REBALANCE_COOLDOWN \<longrightarrow>
      (\<exists>e. requestRebalance w sender now usr fromP toP y g = Inl e) \<and>
      (req_timestamp (rebalanceRequests (engine w)
            (last (userRebalanceHistory (engine w) usr))) \<le> now \<and>
       admitted_before_cooldown w sender usr fromP toP y g \<longrightarrow>
         requestRebalance w sender now usr fromP toP y g =
           Inl (Revert ''Cooldown period active''))) \<and>
   (userRebalanceHistory (engine w) usr = [] \<longrightarrow>
      requestRebalance w sender now usr fromP toP y g \<noteq> Inl (Revert ''Cooldown period active'') \<and>
      (admitted_before_cooldown w sender usr fromP toP y g \<and>
       requestCounter (engine w) < MAX_UINT256 \<longrightarrow>
         (\<exists>w'. requestRebalance w sender now usr fromP toP y g =
                  Inr (w', requestCounter (engine w)))))"
  by (intro conjI impI; (elim conjE)?;
      (rule requestRebalance_cooldown_rejects requestRebalance_cooldown_error
         requestRebalance_first_request; assumption))


theorem requestRebalance_cooldown_witness:
  "\<exists>w. bind (deploy 100 1000 200) (\<lambda>w0. run w0 (market @ three_users @
        [(1000, ManagerCall (AuthorizeRebalancer 100 200 True)),
         (1000, RequestRebalance 100 11 ''Aave'' ''Compound'' 780 (5 * 10 ^ 15)),
         (1100, CancelRebalance 100 0 ''manual''),
         (1200, ManagerCall (DepositFunds 12 (10 ^ 18))),
         (1200, RequestRebalance 100 12 ''Aave'' ''Compound'' 780 0),
         (1300, ExecuteRequest 100 (Suc 0))])) = Inr w \<and>
     cancelled (rebalanceRequests (engine w) 0) \<and>
     executed (rebalanceRequests (engine w) (Suc 0)) \<and>
     requestRebalance w 100 4599 11 ''Aave'' ''Compound'' 780 (5 * 10 ^ 15) =
       Inl (Revert ''Cooldown period active'') \<and>
     (\<exists>e. requestRebalance w 100 4799 12 ''Compound'' ''Curve'' 900 0 = Inl e) \<and>
     (\<exists>w'. requestRebalance w 100 1300 13 ''Aave'' ''Compound'' 780 (5 * 10 ^ 15) = Inr (w', 2))"
proof -
  obtain w where run: "bind (deploy 100 1000 200) (\<lambda>w0. run w0 (market @ three_users @
        [(1000, ManagerCall (AuthorizeRebalancer 100 200 True)),
         (1000, RequestRebalance 100 11 ''Aave'' ''Compound'' 780 (5 * 10 ^ 15)),
         (1100, CancelRebalance 100 0 ''manual''),
         (1200, ManagerCall (DepositFunds 12 (10 ^ 18))),
         (1200, RequestRebalance 100 12 ''Aave'' ''Compound'' 780 0),
         (1300, ExecuteRequest 100 (Suc 0))])) = Inr w"
    and flags: "cancelled (rebalanceRequests (engine w) 0)"
      "executed (rebalanceRequests (engine w) (Suc 0))"
    and h11: "userRebalanceHistory (engine w) 11 = [0]"
      "req_timestamp (rebalanceRequests (engine w) 0) = 1000"
    and h12: "userRebalanceHistory (engine w) 12 = [Suc 0]"
      "req_timestamp (rebalanceRequests (engine w) (Suc 0)) = 1200"
    and h13: "userRebalanceHistory (engine w) 13 = []" "requestCounter (engine w) = 2"
    and adm11: "admitted_before_cooldown w 100 11 ''Aave'' ''Compound'' 780 (5 * 10 ^ 15)"
    and adm13: "admitted_before_cooldown w 100 13 ''Aave'' ''Compound'' 780 (5 * 10 ^ 15)"
    by (simp add: arith_defs pm_defs yo_defs re_defs market_def three_users_def
        admitted_before_cooldown_def)
  note t11 = requestRebalance_cooldown[where w = w and usr = 11 and now = 4599
      and sender = 100 and fromP = "''Aave''" and toP = "''Compound''" and y = 780
      and g = "5 * 10 ^ 15"]
  note t12 = requestRebalance_cooldown[where w = w and usr = 12 and now = 4799
      and sender = 100 and fromP = "''Compound''" and toP = "''Curve''" and y = 900 and g = 0]
  note t13 = requestRebalance_cooldown[where w = w and usr = 13 and now = 1300
      and sender = 100 and fromP = "''Aave''" and toP = "''Compound''" and y = 780
      and g = "5 * 10 ^ 15"]
  from t11 adm11 have r11: "requestRebalance w 100 4599 11 ''Aave'' ''Compound'' 780 (5 * 10 ^ 15) =
       Inl (Revert ''Cooldown period active'')"
    by (simp add: h11 REBALANCE_COOLDOWN_def)
  from t12 have r12: "\<exists>e. requestRebalance w 100 4799 12 ''Compound'' ''Curve'' 900 0 = Inl e"
    by (simp add: h12 REBALANCE_COOLDOWN_def)
  from t13 adm13 have r13:
    "\<exists>w'. requestRebalance w 100 1300 13 ''Aave'' ''Compound'' 780 (5 * 10 ^ 15) = Inr (w', 2)"
    by (simp add: h13 MAX_UINT256_def)
  from run flags r11 r12 r13 show ?thesis by blast
qed

lemma engine_executeRebalance_unprofitable:
  assumes "pending (engine w) requestId"
    and "authorizedAIEngines (engine w) sender \<or> sender = re_owner (engine w)"
    and "\<not> re_paused (engine w)"
    and "autoRebalanceEnabled
           (portfolios (portfolioManager w) (user (rebalanceRequests (engine w) requestId)))"
    and "revalidation w requestId = Inr False"
  shows "RebalancingEngine_executeRebalance w sender now requestId =
           Inl (Revert ''No longer profitable'')"
  using assms
  by (auto simp: RebalancingEngine_executeRebalance_def pending_def revalidation_def
      validRequest_def onlyAuthorizedAI_def require_def getPortfolio_def Let_def)

lemma engine_executeRebalance_Inr:
  assumes "RebalancingEngine_executeRebalance w sender now requestId = Inr w'"
  shows "pending (engine w) requestId" and "\<not> pending (engine w') requestId"
    and "revalidation w requestId = Inr True"
    and "case ledger_mutation w now requestId of
           Inr pm' \<Rightarrow> executed (rebalanceRequests (engine w') requestId) \<and>
                      \<not> cancelled (rebalanceRequests (engine w') requestId) \<and>
                      portfolioManager w' = pm'
         | Inl (Revert reason) \<Rightarrow>
                      cancelled (rebalanceRequests (engine w') requestId) \<and>
                      \<not> executed (rebalanceRequests (engine w') requestId) \<and>
                      portfolioManager w' = portfolioManager w \<and>
                      last (re_events (engine w')) = RebalanceCancelled requestId reason
         | Inl Panic \<Rightarrow> False"
  using assms
  by (auto simp: RebalancingEngine_executeRebalance_def pending_def revalidation_def
      ledger_mutation_def validRequest_def onlyAuthorizedAI_def getPortfolio_def Let_def
      Inr_iffs split: sum.splits error.splits)

text \<open>
  C2, as stated, fails: when the re-validation fails, executeRebalance does not move the
  request to Cancelled. A request admitted for a portfolio of 1 ether stops being
  profitable when the owner withdraws 0.99 ether; executing it then fails with "No
  longer profitable" (a \<^verbatim>\<open>require\<close>), so nothing is written and the request is as
  pending as it was.
\<close>

theorem executeRebalance_unprofitable_stays_pending:
  "bind (deploy 100 1000 200) (\<lambda>w0.
     bind (run w0 (market @
        [(1000, ManagerCall (CreatePortfolio 11 (10 ^ 18) 1)),
         (1000, ManagerCall (AuthorizeRebalancer 100 200 True)),
         (1000, RequestRebalance 100 11 ''Aave'' ''Compound'' 780 (5 * 10 ^ 15)),
         (1100, ManagerCall (WithdrawFunds 11 (99 * 10 ^ 16) True))])) (\<lambda>w.
       Inr (pending (engine w) 0, revalidation w 0,
            RebalancingEngine_executeRebalance w 100 1200 0))) =
   Inr (True, Inr False, Inl (Revert ''No longer profitable''))"
  by (simp add: arith_defs pm_defs yo_defs re_defs market_def pending_def revalidation_def)

text \<open>
  C2, amended. For every Pending request, if the profitability re-validation against the
  current portfolio state fails at execution time, executeRebalance (called with
  authority, unpaused, auto-rebalance on) reverts with "No longer profitable": the
  request stays Pending and the ledger is not touched. And whenever executeRebalance
  returns without reverting, the request was Pending and re-validated and is no longer
  Pending: it is Executed, with the ledger mutated, when the ledger mutation succeeded,
  and Cancelled, with the ledger as it was and the ledger's reason in the event, when the
  ledger rejected the mutation with an error message.
\<close>

theorem engine_executeRebalance_outcomes:
  "(pending (engine w) requestId \<and>
    (authorizedAIEngines (engine w) sender \<or> sender = re_owner (engine w)) \<and>
    \<not> re_paused (engine w) \<and>
    autoRebalanceEnabled
      (portfolios (portfolioManager w) (user (rebalanceRequests (engine w) requestId))) \<and>
    revalidation w requestId = Inr False \<longrightarrow>
      RebalancingEngine_executeRebalance w sender now requestId =
        Inl (Revert ''No longer profitable'')) \<and>
   (RebalancingEngine_executeRebalance w sender now requestId = Inr w' \<longrightarrow>
      pending (engine w) requestId \<and> \<not> pending (engine w') requestId \<and>
      revalidation w requestId = Inr True \<and>
      (case ledger_mutation w now requestId of
         Inr pm' \<Rightarrow> executed (rebalanceRequests (engine w') requestId) \<and>
                    \<not> cancelled (rebalanceRequests (engine w') requestId) \<and>
                    portfolioManager w' = pm'
       | Inl (Revert reason) \<Rightarrow>
                    cancelled (rebalanceRequests (engine w') requestId) \<and>
                    \<not> executed (rebalanceRequests (engine w') requestId) \<and>
                    portfolioManager w' = portfolioManager w \<and>
                    last (re_events (engine w')) = RebalanceCancelled requestId reason
       | Inl Panic \<Rightarrow> False))"
  by (intro conjI impI; (elim conjE)?;
      (rule engine_executeRebalance_unprofitable engine_executeRebalance_Inr; assumption))


text \<open>
  The witness: the request that stopped being profitable; a request of cost 0, which the
  ledger executes; and the same request with the engine not authorized as a rebalancer,
  which the ledger rejects.
\<close>

theorem engine_executeRebalance_outcomes_witness:
  "\<exists>wa wb wb' wc wc'.
     bind (deploy 100 1000 200) (\<lambda>w0. run w0 (market @
        [(1000, ManagerCall (CreatePortfolio 11 (10 ^ 18) 1)),
         (1000, ManagerCall (AuthorizeRebalancer 100 200 True)),
         (1000, RequestRebalance 100 11 ''Aave'' ''Compound'' 780 (5 * 10 ^ 15)),
         (1100, ManagerCall (WithdrawFunds 11 (99 * 10 ^ 16) True))])) = Inr wa \<and>
     pending (engine wa) 0 \<and>
     RebalancingEngine_executeRebalance wa 100 1200 0 = Inl (Revert ''No longer profitable'') \<and>
     bind (deploy 100 1000 200) (\<lambda>w0. run w0 (market @
        [(1000, ManagerCall (CreatePortfolio 11 (10 ^ 18) 1)),
         (1000, ManagerCall (AuthorizeRebalancer 100 200 True)),
         (1000, RequestRebalance 100 11 ''Aave'' ''Compound'' 780 0)])) = Inr wb \<and>
     RebalancingEngine_executeRebalance wb 100 1200 0 = Inr wb' \<and>
     pending (engine wb) 0 \<and> \<not> pending (engine wb') 0 \<and>
     executed (rebalanceRequests (engine wb') 0) \<and>
     currentProtocol (portfolios (portfolioManager wb') 11) = ''Compound'' \<and>
     bind (deploy 100 1000 200) (\<lambda>w0. run w0 (market @
        [(1000, ManagerCall (CreatePortfolio 11 (10 ^ 18) 1)),
         (1000, RequestRebalance 100 11 ''Aave'' ''Compound'' 780 0)])) = Inr wc \<and>
     RebalancingEngine_executeRebalance wc 100 1200 0 = Inr wc' \<and>
     pending (engine wc) 0 \<and> \<not> pending (engine wc') 0 \<and>
     cancelled (rebalanceRequests (engine wc') 0) \<and>
     portfolioManager wc' = portfolioManager wc"
proof -
  obtain wa where runa: "bind (deploy 100 1000 200) (\<lambda>w0. run w0 (market @
        [(1000, ManagerCall (CreatePortfolio 11 (10 ^ 18) 1)),
         (1000, ManagerCall (AuthorizeRebalancer 100 200 True)),
         (1000, RequestRebalance 100 11 ''Aave'' ''Compound'' 780 (5 * 10 ^ 15)),
         (1100, ManagerCall (WithdrawFunds 11 (99 * 10 ^ 16) True))])) = Inr wa"
    and pa: "pending (engine wa) 0"
    and ha: "authorizedAIEngines (engine wa) 100 \<or> 100 = re_owner (engine wa)"
      "\<not> re_paused (engine wa)"
      "autoRebalanceEnabled
         (portfolios (portfolioManager wa) (user (rebalanceRequests (engine wa) 0)))"
      "revalidation wa 0 = Inr False"
    by (simp add: arith_defs pm_defs yo_defs re_defs market_def pending_def revalidation_def)
  obtain wb where runb: "bind (deploy 100 1000 200) (\<lambda>w0. run w0 (market @
        [(1000, ManagerCall (CreatePortfolio 11 (10 ^ 18) 1)),
         (1000, ManagerCall (AuthorizeRebalancer 100 200 True)),
         (1000, RequestRebalance 100 11 ''Aave'' ''Compound'' 780 0)])) = Inr wb"
    and eb: "\<exists>wb'. RebalancingEngine_executeRebalance wb 100 1200 0 = Inr wb'"
    and lb: "\<exists>pm'. ledger_mutation wb 1200 0 = Inr pm' \<and>
               currentProtocol (portfolios pm' 11) = ''Compound''"
    by (simp add: arith_defs pm_defs yo_defs re_defs market_def ledger_mutation_def)
  obtain wc where runc: "bind (deploy 100 1000 200) (\<lambda>w0. run w0 (market @
        [(1000, ManagerCall (CreatePortfolio 11 (10 ^ 18) 1)),
         (1000, RequestRebalance 100 11 ''Aave'' ''Compound'' 780 0)])) = Inr wc"
    and ec: "\<exists>wc'. RebalancingEngine_executeRebalance wc 100 1200 0 = Inr wc'"
    and lc: "ledger_mutation wc 1200 0 = Inl (Revert ''Not authorized rebalancer'')"
    by (simp add: arith_defs pm_defs yo_defs re_defs market_def ledger_mutation_def)
  from eb obtain wb' where eb': "RebalancingEngine_executeRebalance wb 100 1200 0 = Inr wb'"
    by blast
  from lb obtain pm' where lb': "ledger_mutation wb 1200 0 = Inr pm'"
    and cp: "currentProtocol (portfolios pm' 11) = ''Compound''"
    by blast
  from ec obtain wc' where ec': "RebalancingEngine_executeRebalance wc 100 1200 0 = Inr wc'"
    by blast
  note ta = engine_executeRebalance_outcomes
    [where w = wa and sender = 100 and now = 1200 and requestId = 0 and w' = wa]
  note tb = engine_executeRebalance_outcomes
    [where w = wb and sender = 100 and now = 1200 and requestId = 0 and w' = wb']
  note tc = engine_executeRebalance_outcomes
    [where w = wc and sender = 100 and now = 1200 and requestId = 0 and w' = wc']
  from ta pa ha have ra: "RebalancingEngine_executeRebalance wa 100 1200 0 =
      Inl (Revert ''No longer profitable'')"
    by blast
  from tb eb' have rb: "pending (engine wb) 0" "\<not> pending (engine wb') 0"
    "executed (rebalanceRequests (engine wb') 0)" "portfolioManager wb' = pm'"
    by (simp_all add: lb')
  from tc ec' have rc: "pending (engine wc) 0" "\<not> pending (engine wc') 0"
    "cancelled (rebalanceRequests (engine wc') 0)" "portfolioManager wc' = portfolioManager wc"
    by (simp_all add: lc)
  from rb(4) cp have cp': "currentProtocol (portfolios (portfolioManager wb') 11) = ''Compound''"
    by simp
  from runa pa ra runb eb' rb(1-3) cp' runc ec' rc show ?thesis by blast
qed

section \<open>RebalancingEngine: the batch\<close>

text \<open>
  C5. The claim: in batchOptimize a failure for one user is caught and the others are
  still processed, and the summary reports the users actually optimized: over three
  users of whom one fails profitability the count is 2. The code does not. With the
  engine authorized on itself and as a rebalancer, users 11 and 13 (1 ether each) are
  profitable and user 12 (0.01 ether) is not; the ledger mutation for user 11 fails with
  an arithmetic Panic (\<^verbatim>\<open>annualProfit.sub(gasCost)\<close> on an annual profit of 0, the same
  line as in C1), the \<^verbatim>\<open>catch Error(string memory reason)\<close> of executeRebalance does
  not catch a Panic, and \<^verbatim>\<open>this.executeRebalance(requestId)\<close> stands in the success
  block of the \<^verbatim>\<open>try\<close> in batchOptimization, where no \<^verbatim>\<open>catch\<close> reaches: the whole
  batch reverts, users 12 and 13 are never looked at and no summary is emitted.
\<close>

theorem batchOptimization_reverts:
  "bind (deploy 100 1000 200) (\<lambda>w0.
     bind (run w0 (market @ three_users @
        [(1000, ManagerCall (AuthorizeRebalancer 100 200 True)),
         (1000, AuthorizeAIEngine 100 200 True)])) (\<lambda>w.
       Inr (batchOptimization w 100 1000 [11, 12, 13]))) = Inr (Inl Panic)"
  by (simp add: arith_defs pm_defs yo_defs re_defs market_def three_users_def)

text \<open>
  The same batch when PortfolioManager has not authorized the engine: the ledger rejects
  both mutations with a message, both requests end Cancelled and no portfolio moves, and
  the summary still reports 2 users optimized and their profit.
\<close>

lemma batchOptimization_counts_cancelled:
  "bind (deploy 100 1000 200) (\<lambda>w0.
     bind (run w0 (market @ three_users @
        [(1000, AuthorizeAIEngine 100 200 True),
         (1000, BatchOptimization 100 [11, 12, 13])])) (\<lambda>w.
       Inr (last (re_events (engine w)),
            map (\<lambda>u. currentProtocol (portfolios (portfolioManager w) u)) [11, 12, 13],
            map (\<lambda>i. cancelled (rebalanceRequests (engine w) i)) [0, 1]))) =
   Inr (OptimizationCompleted 2 82000000000000000, [''Aave'', ''Aave'', ''Aave''], [True, True])"
  by (simp add: arith_defs pm_defs yo_defs re_defs market_def three_users_def)

text \<open>
  And when the engine is not authorized on itself, every \<^verbatim>\<open>this.requestRebalance\<close> is
  rejected and caught: the summary reports 0 users.
\<close>

lemma batchOptimization_not_self_authorized:
  "bind (deploy 100 1000 200) (\<lambda>w0.
     bind (run w0 (market @ three_users @
        [(1000, ManagerCall (AuthorizeRebalancer 100 200 True)),
         (1000, BatchOptimization 100 [11, 12, 13])])) (\<lambda>w.
       Inr (re_events (engine w)))) = Inr [OptimizationCompleted 0 0]"
  by (simp add: arith_defs pm_defs yo_defs re_defs market_def three_users_def)

text \<open>
  In every state: a request of a cost above 0 is never executed, since the ledger
  mutation cannot succeed for it; the batch estimates a cost of at least 0.005 ether for
  every user; so a batch that returns has moved no portfolio, whatever its summary says.
\<close>

lemma requestRebalance_Inr:
  assumes "requestRebalance w sender now usr fromP toP y g = Inr (w1, rid)"
  shows "portfolioManager w1 = portfolioManager w" and "yieldOracle w1 = yieldOracle w"
    and "engineAddress w1 = engineAddress w"
    and "estimatedGas (rebalanceRequests (engine w1) rid) = g"
  using assms
  by (auto simp: requestRebalance_def getPortfolio_def Let_def Inr_iffs split: list.splits)

lemma engine_executeRebalance_frame:
  assumes "RebalancingEngine_executeRebalance w sender now rid = Inr w'"
  shows "yieldOracle w' = yieldOracle w" and "engineAddress w' = engineAddress w"
  using assms
  by (auto simp: RebalancingEngine_executeRebalance_def getPortfolio_def Let_def Inr_iffs
      split: sum.splits error.splits)

lemma engine_executeRebalance_costly:
  assumes "RebalancingEngine_executeRebalance w sender now rid = Inr w'"
    and "estimatedGas (rebalanceRequests (engine w) rid) > 0"
  shows "portfolioManager w' = portfolioManager w"
    and "cancelled (rebalanceRequests (engine w') rid)"
proof -
  have "\<not> (\<exists>pm'. ledger_mutation w now rid = Inr pm')"
    using assms(2) PortfolioManager_executeRebalance_Inr(1)
    by (fastforce simp: ledger_mutation_def Let_def)
  with engine_executeRebalance_Inr(4)[OF assms(1)]
  show "portfolioManager w' = portfolioManager w"
    and "cancelled (rebalanceRequests (engine w') rid)"
    by (auto split: sum.splits error.splits)
qed

lemma estimateGasCost_positive: "estimateGasCost fromP toP = Inr g \<Longrightarrow> g > 0"
  by (auto simp: estimateGasCost_def Let_def Inr_iffs split: if_splits)

lemma request_then_execute:
  assumes "requestRebalance w sender now usr fromP toP y g = Inr (w1, rid)" and "g > 0"
    and "RebalancingEngine_executeRebalance w1 sender' now' rid = Inr w2"
  shows "portfolioManager w2 = portfolioManager w"
  using requestRebalance_Inr(1,4)[OF assms(1)] engine_executeRebalance_costly(1)[OF assms(3)]
    assms(2)
  by simp

lemma batchOptimization_loop_Cons:
  assumes run: "batchOptimization_loop w now (usr # rest) (c, p) = Inr res"
  shows "\<exists>w2 c2 p2. batchOptimization_loop w2 now rest (c2, p2) = Inr res \<and>
           portfolioManager w2 = portfolioManager w"
proof -
  let ?pf = "portfolios (portfolioManager w) usr"
  let ?ceiling = "mapRiskProfile (uint8_of_RiskProfile (riskProfile ?pf))"
  have same: "batchOptimization_loop w now rest (c, p) = Inr res \<Longrightarrow> ?thesis"
    by blast
  show ?thesis
  proof (cases "\<not> autoRebalanceEnabled ?pf \<or> totalValue ?pf = 0")
    case True
    with run show ?thesis by (intro same) (auto simp: getPortfolio_def Let_def)
  next
    case active: False
    with run obtain bestProtocol bestYield bestRiskScore where
      step: "(if length bestProtocol > 0 \<and> bestYield > currentYield ?pf \<and>
                bestRiskScore \<le> ?ceiling
             then
               bind (estimateGasCost (currentProtocol ?pf) bestProtocol) (\<lambda>estGas.
               bind (isProfitableRebalance usr (currentYield ?pf) bestYield estGas
                       (totalValue ?pf)) (\<lambda>profitable.
                 if profitable
                 then
                   (case requestRebalance w (engineAddress w) now usr (currentProtocol ?pf)
                           bestProtocol bestYield estGas of
                      Inr (w1, requestId) \<Rightarrow>
                        bind (RebalancingEngine_executeRebalance w1 (engineAddress w) now
                                requestId) (\<lambda>w2.
                        bind (checked_add c 1) (\<lambda>optimizedCount.
                        bind (calculateProfit (currentYield ?pf) bestYield (totalValue ?pf)
                                estGas) (\<lambda>profit.
                        bind (checked_add p profit) (\<lambda>totalP.
                          batchOptimization_loop w2 now rest (optimizedCount, totalP)))))
                    | Inl _ \<Rightarrow> batchOptimization_loop w now rest (c, p))
                 else batchOptimization_loop w now rest (c, p)))
             else batchOptimization_loop w now rest (c, p)) = Inr res"
      by (auto simp: getPortfolio_def Let_def bind_Inr_iff)
    show ?thesis
    proof (cases "length bestProtocol > 0 \<and> bestYield > currentYield ?pf \<and>
                  bestRiskScore \<le> ?ceiling")
      case False
      from step show ?thesis by (intro same) (simp only: if_not_P[OF False])
    next
      case True
      from step[unfolded if_P[OF True]] obtain estGas profitable where
        gas: "estimateGasCost (currentProtocol ?pf) bestProtocol = Inr estGas"
        and inner: "(if profitable
                 then
                   (case requestRebalance w (engineAddress w) now usr (currentProtocol ?pf)
                           bestProtocol bestYield estGas of
                      Inr (w1, requestId) \<Rightarrow>
                        bind (RebalancingEngine_executeRebalance w1 (engineAddress w) now
                                requestId) (\<lambda>w2.
                        bind (checked_add c 1) (\<lambda>optimizedCount.
                        bind (calculateProfit (currentYield ?pf) bestYield (totalValue ?pf)
                                estGas) (\<lambda>profit.
                        bind (checked_add p profit) (\<lambda>totalP.
                          batchOptimization_loop w2 now rest (optimizedCount, totalP)))))
                    | Inl _ \<Rightarrow> batchOptimization_loop w now rest (c, p))
                 else batchOptimization_loop w now rest (c, p)) = Inr res"
        by (auto simp: bind_Inr_iff)
      have pos: "estGas > 0" using gas by (rule estimateGasCost_positive)
      show ?thesis
      proof (cases profitable)
        case False
        from inner show ?thesis by (intro same) (simp only: if_not_P[OF False])
      next
        case True
        show ?thesis
        proof (cases "requestRebalance w (engineAddress w) now usr (currentProtocol ?pf)
                        bestProtocol bestYield estGas")
          case (Inl e)
          with inner True show ?thesis by (intro same) simp
        next
          case (Inr admitted)
          obtain w1 requestId where admitted: "admitted = (w1, requestId)" by (cases admitted)
          with inner True Inr obtain w2 c2 p2 where
            ex: "RebalancingEngine_executeRebalance w1 (engineAddress w) now requestId = Inr w2"
            and rec: "batchOptimization_loop w2 now rest (c2, p2) = Inr res"
            by (auto simp: bind_Inr_iff)
          from Inr admitted have
            "requestRebalance w (engineAddress w) now usr (currentProtocol ?pf)
               bestProtocol bestYield estGas = Inr (w1, requestId)"
            by simp
          from request_then_execute[OF this pos ex] rec show ?thesis by blast
        qed
      qed
    qed
  qed
qed

lemma batchOptimization_loop_frame:
  "batchOptimization_loop w now users (c, p) = Inr (w', c', p') \<Longrightarrow>
   portfolioManager w' = portfolioManager w"
proof (induction users arbitrary: w c p)
  case Nil
  then show ?case by simp
next
  case (Cons usr rest)
  from batchOptimization_loop_Cons[OF Cons.prems] obtain w2 c2 p2
    where "batchOptimization_loop w2 now rest (c2, p2) = Inr (w', c', p')"
      and "portfolioManager w2 = portfolioManager w"
    by blast
  with Cons.IH show ?case by simp
qed

lemma batchOptimization_moves_nothing:
  assumes "batchOptimization w sender now users = Inr w'"
  shows "portfolios (portfolioManager w') = portfolios (portfolioManager w)"
  using assms
  by (auto simp: batchOptimization_def Inr_iffs dest: batchOptimization_loop_frame)

end
